theory Spec2Isabelle
  imports Main "HOL-Library.Sublist"
begin

section \<open>Complementry: an inline-completion extension for a host editor\<close>

text \<open>
  The development embeds the TypeScript sources \<^verbatim>\<open>src/unnamed/part_001\<close> (the variant in
  which the provider hands the host a promise) and \<^verbatim>\<open>src/src/extension.ts\<close> (the variant
  in which the provider hands the host a stored result). Classes become functions on the
  state they own, passed explicitly. The diagnostic \<^verbatim>\<open>log\<close> function only appends lines to
  the host's output channel, which no code reads back; those calls are left out.
\<close>

subsection \<open>Document settings (class \<^verbatim>\<open>DocumentSettingsManager\<close>)\<close>

text \<open>
  \<^verbatim>\<open>interface DocumentSettings { promptTemplate?: string; contextFiles: string[] }\<close>.
  The manager owns a \<^verbatim>\<open>Map<string, DocumentSettings>\<close>; the settings objects are mutated in
  place, which the model writes as an update of the map at the document's key.
\<close>

record DocumentSettings =
  promptTemplate :: "string option"
  contextFiles :: "string list"

type_synonym settingsMap = "string \<rightharpoonup> DocumentSettings"

definition defaultSettings :: DocumentSettings where
  "defaultSettings = \<lparr>promptTemplate = None, contextFiles = []\<rparr>"

text \<open>\<^verbatim>\<open>getSettings\<close> creates the default entry on first access and returns the entry.\<close>

definition getSettings :: "string \<Rightarrow> settingsMap \<Rightarrow> DocumentSettings \<times> settingsMap" where
  "getSettings documentUri m =
     (let m1 = (if m documentUri = None then m(documentUri \<mapsto> defaultSettings) else m)
      in (case m1 documentUri of Some s \<Rightarrow> (s, m1) | None \<Rightarrow> (defaultSettings, m1)))"

definition setPromptTemplate :: "string \<Rightarrow> string \<Rightarrow> settingsMap \<Rightarrow> settingsMap" where
  "setPromptTemplate documentUri template m =
     (let (s, m1) = getSettings documentUri m
      in m1(documentUri \<mapsto> s\<lparr>promptTemplate := Some template\<rparr>))"

text \<open>\<^verbatim>\<open>Array.prototype.includes\<close> on strings is membership; \<^verbatim>\<open>push\<close> appends at the end.\<close>

definition addContextFile :: "string \<Rightarrow> string \<Rightarrow> settingsMap \<Rightarrow> settingsMap" where
  "addContextFile documentUri filePath m =
     (let (s, m1) = getSettings documentUri m
      in if filePath \<in> set (contextFiles s) then m1
         else m1(documentUri \<mapsto> s\<lparr>contextFiles := contextFiles s @ [filePath]\<rparr>))"

text \<open>
  \<^verbatim>\<open>Array.prototype.indexOf\<close> returns the first index of the element, or \<open>-1\<close>;
  \<^verbatim>\<open>splice(index, 1)\<close> deletes the one element at that index.
\<close>

fun indexOf :: "'a list \<Rightarrow> 'a \<Rightarrow> int" where
  "indexOf [] x = -1"
| "indexOf (y # ys) x =
     (if y = x then 0 else (let i = indexOf ys x in if i = -1 then -1 else i + 1))"

definition splice1 :: "nat \<Rightarrow> 'a list \<Rightarrow> 'a list" where
  "splice1 i xs = take i xs @ drop (Suc i) xs"

definition removeContextFile :: "string \<Rightarrow> string \<Rightarrow> settingsMap \<Rightarrow> settingsMap" where
  "removeContextFile documentUri filePath m =
     (let (s, m1) = getSettings documentUri m;
          index = indexOf (contextFiles s) filePath
      in if index > -1
         then m1(documentUri \<mapsto> s\<lparr>contextFiles := splice1 (nat index) (contextFiles s)\<rparr>)
         else m1)"

definition getContextFiles :: "string \<Rightarrow> settingsMap \<Rightarrow> string list \<times> settingsMap" where
  "getContextFiles documentUri m =
     (let (s, m1) = getSettings documentUri m in (contextFiles s, m1))"

text \<open>The operations a user can drive on the store, and their runs from the empty store.\<close>

datatype settingsOp =
    SetPromptTemplate string string
  | AddContextFile string string
  | RemoveContextFile string string
  | GetSettings string

fun applySettingsOp :: "settingsMap \<Rightarrow> settingsOp \<Rightarrow> settingsMap" where
  "applySettingsOp m (SetPromptTemplate u t) = setPromptTemplate u t m"
| "applySettingsOp m (AddContextFile u p) = addContextFile u p m"
| "applySettingsOp m (RemoveContextFile u p) = removeContextFile u p m"
| "applySettingsOp m (GetSettings u) = snd (getSettings u m)"

definition runSettingsOps :: "settingsOp list \<Rightarrow> settingsMap" where
  "runSettingsOps ops = foldl applySettingsOp Map.empty ops"

text \<open>No document's list of context files holds a path twice.\<close>

definition filesDistinct :: "settingsMap \<Rightarrow> bool" where
  "filesDistinct m = (\<forall>u s. m u = Some s \<longrightarrow> distinct (contextFiles s))"

subsection \<open>Host types\<close>

text \<open>
  The host editor's \<^verbatim>\<open>Position\<close>, \<^verbatim>\<open>Range\<close>, \<^verbatim>\<open>InlineCompletionItem\<close>, \<^verbatim>\<open>TextDocument\<close> and
  \<^verbatim>\<open>TextEditor\<close>. The text buffer belongs to the host: the document's methods
  \<^verbatim>\<open>getText()\<close>, \<^verbatim>\<open>getText(range)\<close> and \<^verbatim>\<open>positionAt(offset)\<close> are fields of the record, so nothing
  is assumed about how the host slices its buffer.
\<close>

record Position =
  line :: nat
  character :: nat

record Range =
  rangeStart :: Position
  rangeEnd :: Position

record InlineCompletionItem =
  insertText :: string
  itemRange :: "Range option"

record TextDocument =
  uri :: string
  languageId :: string
  getText :: string
  getTextRange :: "Range \<Rightarrow> string"
  positionAt :: "nat \<Rightarrow> Position"

record TextEditor =
  document :: TextDocument
  selectionActive :: Position

text \<open>A JavaScript \<^verbatim>\<open>Error\<close> with its message: what a rejected promise or a \<^verbatim>\<open>throw\<close> carries.\<close>

datatype error = Error string

text \<open>\<^verbatim>\<open>vscode.workspace.openTextDocument(uri)\<close> followed by \<^verbatim>\<open>getText()\<close>: the file's text, or a rejection.\<close>

type_synonym fileSystem = "string \<Rightarrow> error + string"

subsection \<open>Promises and the effects of the extension\<close>

text \<open>
  The request \<^verbatim>\<open>getCompletion\<close> sends to the language model: the region given to
  \<^verbatim>\<open>createAmazonBedrock\<close> and the arguments of \<^verbatim>\<open>generateText\<close>. The temperature is the constant
  \<open>0.7\<close> in every request and is not a field.
\<close>

record GenerateTextRequest =
  region :: string
  modelId :: string
  prompt :: string
  maxOutputTokens :: nat

text \<open>
  Promises are identified by the order of their creation. Every \<^verbatim>\<open>new Promise\<close>, every call
  of a promise's \<^verbatim>\<open>resolve\<close> function, every \<^verbatim>\<open>vscode.commands.executeCommand\<close> and every
  request \<^verbatim>\<open>getCompletion\<close> sets out to send to the backend is recorded, in order, in the trace of
  the world. As in JavaScript, the first \<^verbatim>\<open>resolve\<close> call settles a promise and later calls on
  the same promise change nothing.
\<close>

datatype event =
    NewPromise nat
  | ResolveCall nat "InlineCompletionItem list"
  | ExecuteCommand string
  | GenerateText GenerateTextRequest

fun created :: "event list \<Rightarrow> nat list" where
  "created [] = []"
| "created (NewPromise p # tr) = p # created tr"
| "created (ResolveCall p items # tr) = created tr"
| "created (ExecuteCommand c # tr) = created tr"
| "created (GenerateText req # tr) = created tr"

fun resolveCalls :: "nat \<Rightarrow> event list \<Rightarrow> InlineCompletionItem list list" where
  "resolveCalls p [] = []"
| "resolveCalls p (NewPromise q # tr) = resolveCalls p tr"
| "resolveCalls p (ResolveCall q items # tr) =
     (if q = p then items # resolveCalls p tr else resolveCalls p tr)"
| "resolveCalls p (ExecuteCommand c # tr) = resolveCalls p tr"
| "resolveCalls p (GenerateText req # tr) = resolveCalls p tr"

datatype promiseState = Pending | Fulfilled "InlineCompletionItem list"

definition promiseState :: "nat \<Rightarrow> event list \<Rightarrow> promiseState" where
  "promiseState p tr = (case resolveCalls p tr of [] \<Rightarrow> Pending | items # _ \<Rightarrow> Fulfilled items)"

text \<open>The promises created so far on which \<^verbatim>\<open>resolve\<close> has not been called.\<close>

definition unsettled :: "event list \<Rightarrow> nat list" where
  "unsettled tr = filter (\<lambda>p. resolveCalls p tr = []) (created tr)"

text \<open>
  \<^verbatim>\<open>pendingRequest\<close> of the class \<^verbatim>\<open>CompletionRequestManager\<close>: the fields \<^verbatim>\<open>promise\<close> and \<^verbatim>\<open>resolve\<close>
  of the source are the two ends of one promise, here one identifier.
\<close>

record PendingRequest =
  documentUri :: string
  position :: Position
  promise :: nat

text \<open>
  The state the extension's components share after \<^verbatim>\<open>activate\<close>: the settings manager's map, the
  request manager's slot, the text of the status bar item, and the trace.
\<close>

record world =
  settings :: settingsMap
  pendingRequest :: "PendingRequest option"
  statusBarText :: string
  trace :: "event list"

definition initialWorld :: world where
  "initialWorld = \<lparr>settings = Map.empty, pendingRequest = None,
     statusBarText = ''$(sparkle) Complementry'', trace = []\<rparr>"

definition newPromise :: "world \<Rightarrow> nat \<times> world" where
  "newPromise w = (let p = length (created (trace w))
                   in (p, w\<lparr>trace := trace w @ [NewPromise p]\<rparr>))"

definition resolvePromise :: "nat \<Rightarrow> InlineCompletionItem list \<Rightarrow> world \<Rightarrow> world" where
  "resolvePromise p items w = w\<lparr>trace := trace w @ [ResolveCall p items]\<rparr>"

definition executeCommand :: "string \<Rightarrow> world \<Rightarrow> world" where
  "executeCommand command w = w\<lparr>trace := trace w @ [ExecuteCommand command]\<rparr>"

text \<open>
  \<^verbatim>\<open>setStatus(text, icon?, timeout?)\<close>. The timer that puts the idle text back after
  \<^verbatim>\<open>timeout\<close> milliseconds is a matter of real time and is left out.
\<close>

definition setStatus :: "string \<Rightarrow> string option \<Rightarrow> world \<Rightarrow> world" where
  "setStatus txt icon w =
     (let iconStr = (case icon of None \<Rightarrow> [] | Some i \<Rightarrow> if i = [] then [] else ''$('' @ i @ '') '')
      in w\<lparr>statusBarText := iconStr @ txt\<rparr>)"

subsection \<open>The request coordinator (class \<^verbatim>\<open>CompletionRequestManager\<close>, part\_001)\<close>

definition createPendingRequest :: "string \<Rightarrow> Position \<Rightarrow> world \<Rightarrow> world" where
  "createPendingRequest docUri pos w =
     (let w1 = (case pendingRequest w of
                  Some r \<Rightarrow> resolvePromise (promise r) [] w
                | None \<Rightarrow> w);
          (p, w2) = newPromise w1
      in w2\<lparr>pendingRequest := Some \<lparr>documentUri = docUri, position = pos, promise = p\<rparr>\<rparr>)"

definition resolveRequest :: "InlineCompletionItem list \<Rightarrow> world \<Rightarrow> world" where
  "resolveRequest items w =
     (case pendingRequest w of
        Some r \<Rightarrow> (resolvePromise (promise r) items w)\<lparr>pendingRequest := None\<rparr>
      | None \<Rightarrow> w)"

text \<open>The reading operations return the world they leave next to their result.\<close>

definition getPendingPromise :: "string \<Rightarrow> world \<Rightarrow> nat option \<times> world" where
  "getPendingPromise docUri w =
     (case pendingRequest w of
        Some r \<Rightarrow> if documentUri r = docUri then (Some (promise r), w) else (None, w)
      | None \<Rightarrow> (None, w))"

definition hasPendingRequest :: "world \<Rightarrow> bool \<times> world" where
  "hasPendingRequest w = (pendingRequest w \<noteq> None, w)"

definition cancelRequest :: "world \<Rightarrow> world" where
  "cancelRequest w =
     (case pendingRequest w of
        Some r \<Rightarrow> (resolvePromise (promise r) [] w)\<lparr>pendingRequest := None\<rparr>
      | None \<Rightarrow> w)"

text \<open>Sequences of coordinator operations, run from the state after activation.\<close>

datatype coordinatorOp =
    CreatePendingRequest string Position
  | ResolveRequest "InlineCompletionItem list"
  | CancelRequest

fun applyCoordinatorOp :: "world \<Rightarrow> coordinatorOp \<Rightarrow> world" where
  "applyCoordinatorOp w (CreatePendingRequest u pos) = createPendingRequest u pos w"
| "applyCoordinatorOp w (ResolveRequest items) = resolveRequest items w"
| "applyCoordinatorOp w CancelRequest = cancelRequest w"

definition runCoordinatorOps :: "coordinatorOp list \<Rightarrow> world" where
  "runCoordinatorOps ops = foldl applyCoordinatorOp initialWorld ops"

text \<open>
  The state of the slot agrees with the promises: identifiers are handed out in order, no
  \<^verbatim>\<open>resolve\<close> function has been called twice or before its promise existed, and the unsettled
  promises are exactly the one in the slot.
\<close>

definition slotPromises :: "world \<Rightarrow> nat list" where
  "slotPromises w = (case pendingRequest w of None \<Rightarrow> [] | Some r \<Rightarrow> [promise r])"

definition coordinatorInv :: "world \<Rightarrow> bool" where
  "coordinatorInv w =
     (created (trace w) = [0..<length (created (trace w))]
      \<and> (\<forall>p. length (resolveCalls p (trace w)) \<le> 1)
      \<and> (\<forall>p. resolveCalls p (trace w) \<noteq> [] \<longrightarrow> p < length (created (trace w)))
      \<and> unsettled (trace w) = slotPromises w)"

subsection \<open>The provider (class \<^verbatim>\<open>ComplementryCompletionProvider\<close>, part\_001)\<close>

text \<open>
  \<^verbatim>\<open>provideInlineCompletionItems(document, position, context, token)\<close>; the last two arguments
  are only logged. The result is the promise handed to the host, or \<^verbatim>\<open>null\<close>.
\<close>

definition provideInlineCompletionItems ::
  "TextDocument \<Rightarrow> Position \<Rightarrow> world \<Rightarrow> nat option \<times> world" where
  "provideInlineCompletionItems doc pos w =
     (if languageId doc \<noteq> ''markdown'' then (None, w)
      else (let (pendingPromise, w1) = getPendingPromise (uri doc) w
            in (case pendingPromise of
                  Some p \<Rightarrow> (Some p, w1)
                | None \<Rightarrow> (None, w1))))"

subsection \<open>The stored-result variant (\<^verbatim>\<open>src/src/extension.ts\<close>)\<close>

text \<open>
  Class \<^verbatim>\<open>CompletionTriggerManager\<close>. An array is truthy in JavaScript even when empty, so the
  test \<^verbatim>\<open>this.completionResult\<close> is a test against \<^verbatim>\<open>null\<close>; a string is truthy when not empty.
\<close>

record CompletionTriggerManager =
  pendingCompletion :: "PendingRequest option"
  completionResult :: "InlineCompletionItem list option"
  completionDocUri :: "string option"
  lastCompletionText :: "string option"
  resultCallCount :: nat

definition newCompletionTriggerManager :: CompletionTriggerManager where
  "newCompletionTriggerManager =
     \<lparr>pendingCompletion = None, completionResult = None, completionDocUri = None,
      lastCompletionText = None, resultCallCount = 0\<rparr>"

definition setPendingCompletion ::
  "string \<Rightarrow> Position \<Rightarrow> nat \<Rightarrow> CompletionTriggerManager \<Rightarrow> CompletionTriggerManager" where
  "setPendingCompletion docUri pos resolve tm =
     tm\<lparr>pendingCompletion := Some \<lparr>documentUri = docUri, position = pos, promise = resolve\<rparr>\<rparr>"

definition setCompletionResult ::
  "string \<Rightarrow> InlineCompletionItem list \<Rightarrow> CompletionTriggerManager \<Rightarrow> CompletionTriggerManager" where
  "setCompletionResult docUri items tm =
     tm\<lparr>completionResult := Some items,
        completionDocUri := Some docUri,
        resultCallCount := 0,
        lastCompletionText :=
          (case items of
             [] \<Rightarrow> lastCompletionText tm
           | i # _ \<Rightarrow> if insertText i \<noteq> [] then Some (insertText i) else lastCompletionText tm)\<rparr>"

definition getCompletionResult ::
  "string \<Rightarrow> CompletionTriggerManager \<Rightarrow> InlineCompletionItem list option \<times> CompletionTriggerManager" where
  "getCompletionResult docUri tm =
     (if completionDocUri tm = Some docUri \<and> completionResult tm \<noteq> None
      then (let tm1 = tm\<lparr>resultCallCount := resultCallCount tm + 1\<rparr>
            in if resultCallCount tm1 > 3
               then (completionResult tm1, tm1\<lparr>completionResult := None, completionDocUri := None\<rparr>)
               else (completionResult tm1, tm1))
      else (None, tm))"

definition getLastCompletionText :: "CompletionTriggerManager \<Rightarrow> string option" where
  "getLastCompletionText tm = lastCompletionText tm"

definition clearResult :: "CompletionTriggerManager \<Rightarrow> CompletionTriggerManager" where
  "clearResult tm = tm\<lparr>completionResult := None, completionDocUri := None\<rparr>"

definition consumePending ::
  "CompletionTriggerManager \<Rightarrow> PendingRequest option \<times> CompletionTriggerManager" where
  "consumePending tm = (pendingCompletion tm, tm\<lparr>pendingCompletion := None\<rparr>)"

text \<open>The provider of this variant hands the host the stored item list itself.\<close>

definition provideInlineCompletionItems_stored ::
  "TextDocument \<Rightarrow> Position \<Rightarrow> CompletionTriggerManager
     \<Rightarrow> InlineCompletionItem list option \<times> CompletionTriggerManager" where
  "provideInlineCompletionItems_stored doc pos tm =
     (if languageId doc \<noteq> ''markdown'' then (None, tm)
      else (let (precomputed, tm1) = getCompletionResult (uri doc) tm
            in (case precomputed of
                  Some items \<Rightarrow> (Some items, tm1)
                | None \<Rightarrow> (None, tm1))))"

subsection \<open>\<^verbatim>\<open>String.prototype.replace\<close> with a global pattern of literal text\<close>

text \<open>
  \<^verbatim>\<open>str.replace(/{document}/g, replacement)\<close>: the braces do not form a quantifier, so the
  pattern matches its own text. In the replacement string a dollar sign followed by \<^verbatim>\<open>$\<close>,
  \<^verbatim>\<open>&\<close>, a backtick or an apostrophe stands for a dollar sign, the matched text, the part of
  \<^verbatim>\<open>str\<close> before the match and the part after it; the patterns have no capture groups, so
  every other dollar sign stands for itself.
\<close>

fun getSubstitution :: "string \<Rightarrow> string \<Rightarrow> string \<Rightarrow> string \<Rightarrow> string" where
  "getSubstitution matched preceding following (c # d # rest) =
     (if c = CHR ''$'' then
        (if d = CHR ''$'' then CHR ''$'' # getSubstitution matched preceding following rest
         else if d = CHR ''&'' then matched @ getSubstitution matched preceding following rest
         else if d = CHR 0x60 then preceding @ getSubstitution matched preceding following rest
         else if d = CHR 0x27 then following @ getSubstitution matched preceding following rest
         else c # getSubstitution matched preceding following (d # rest))
      else c # getSubstitution matched preceding following (d # rest))"
| "getSubstitution matched preceding following [c] = [c]"
| "getSubstitution matched preceding following [] = []"

text \<open>
  The matches are found from left to right, each search starting behind the previous match;
  \<open>preceding\<close> is the part of the string already passed. The patterns of the source are not
  empty.
\<close>

function replaceFrom :: "string \<Rightarrow> string \<Rightarrow> string \<Rightarrow> string \<Rightarrow> string" where
  "replaceFrom pat repl preceding [] = []"
| "replaceFrom pat repl preceding (c # cs) =
     (if pat \<noteq> [] \<and> prefix pat (c # cs)
      then getSubstitution pat preceding (drop (length pat) (c # cs)) repl
             @ replaceFrom pat repl (preceding @ pat) (drop (length pat) (c # cs))
      else c # replaceFrom pat repl (preceding @ [c]) cs)"
  by pat_completeness auto
termination
  by (relation "measure (\<lambda>(pat, repl, preceding, s). length s)") auto

definition replaceGlobal :: "string \<Rightarrow> string \<Rightarrow> string \<Rightarrow> string" where
  "replaceGlobal pat repl str = replaceFrom pat repl [] str"

subsection \<open>The prompt builder (class \<^verbatim>\<open>PromptBuilder\<close>)\<close>

definition newline :: string where
  "newline = [CHR 0x0A]"

text \<open>One round of the loop over \<^verbatim>\<open>settings.contextFiles\<close>: a file that cannot be opened is skipped.\<close>

definition contextBlock :: "string \<Rightarrow> string \<Rightarrow> string" where
  "contextBlock filePath txt =
     newline @ ''--- Context from '' @ filePath @ '' ---'' @ newline @ txt @ newline"

fun loadContextFiles :: "fileSystem \<Rightarrow> string list \<Rightarrow> string \<Rightarrow> string" where
  "loadContextFiles fs [] contextContent = contextContent"
| "loadContextFiles fs (filePath # rest) contextContent =
     loadContextFiles fs rest
       (case fs filePath of
          Inr txt \<Rightarrow> contextContent @ contextBlock filePath txt
        | Inl err \<Rightarrow> contextContent)"

text \<open>The chain of five \<^verbatim>\<open>replace\<close> calls, each applied to the result of the one before.\<close>

definition replaceTemplateVariables ::
  "string \<Rightarrow> string \<Rightarrow> string \<Rightarrow> string \<Rightarrow> string \<Rightarrow> string" where
  "replaceTemplateVariables template fullDocument textBeforeCursor textAfterCursor contextContent =
     replaceGlobal ''{cursor}'' ''[CURSOR HERE]''
       (replaceGlobal ''{context_files}'' contextContent
         (replaceGlobal ''{after_cursor}'' textAfterCursor
           (replaceGlobal ''{before_cursor}'' textBeforeCursor
             (replaceGlobal ''{document}'' fullDocument template))))"

text \<open>
  \<^verbatim>\<open>buildPrompt(document, position, defaultTemplate)\<close>. An empty \<^verbatim>\<open>promptTemplate\<close> is falsy, so
  \<^verbatim>\<open>settings.promptTemplate || defaultTemplate\<close> then takes the default. The settings map is
  returned because \<^verbatim>\<open>getSettings\<close> may have created the document's entry.
\<close>

definition buildPrompt ::
  "fileSystem \<Rightarrow> TextDocument \<Rightarrow> Position \<Rightarrow> string \<Rightarrow> settingsMap \<Rightarrow> string \<times> settingsMap" where
  "buildPrompt fs doc pos defaultTemplate m =
     (let (s, m1) = getSettings (uri doc) m;
          template = (case promptTemplate s of
                        Some t \<Rightarrow> if t \<noteq> [] then t else defaultTemplate
                      | None \<Rightarrow> defaultTemplate);
          textBeforeCursor =
            getTextRange doc \<lparr>rangeStart = \<lparr>line = 0, character = 0\<rparr>, rangeEnd = pos\<rparr>;
          textAfterCursor =
            getTextRange doc \<lparr>rangeStart = pos, rangeEnd = positionAt doc (length (getText doc))\<rparr>;
          fullDocument = getText doc;
          contextContent = loadContextFiles fs (contextFiles s) []
      in (replaceTemplateVariables template fullDocument textBeforeCursor textAfterCursor
            contextContent, m1))"

subsection \<open>The backend client (class \<^verbatim>\<open>LLMService\<close>, part\_001)\<close>

text \<open>\<^verbatim>\<open>config.get(key, default)\<close> on the \<^verbatim>\<open>complementry\<close> section of the workspace configuration.\<close>

record WorkspaceConfiguration =
  model :: "string option"
  maxTokens :: "nat option"
  awsRegion :: "string option"
  defaultPromptTemplate :: "string option"

definition configGet :: "'a option \<Rightarrow> 'a \<Rightarrow> 'a" where
  "configGet v d = (case v of Some x \<Rightarrow> x | None \<Rightarrow> d)"

text \<open>
  What \<^verbatim>\<open>generateText\<close> answers: the text may be missing or empty. The backend is a parameter:
  for each request it yields the result, or the error that \<^verbatim>\<open>createAmazonBedrock\<close> or
  \<^verbatim>\<open>generateText\<close> throws.
\<close>

record GenerateTextResult =
  resultText :: "string option"
  finishReason :: string

type_synonym backend = "GenerateTextRequest \<Rightarrow> error + GenerateTextResult"

definition completionRequest :: "string \<Rightarrow> WorkspaceConfiguration \<Rightarrow> GenerateTextRequest" where
  "completionRequest promptText config =
     \<lparr>region = configGet (awsRegion config) ''us-east-1'',
      modelId = configGet (model config) ''us.anthropic.claude-3-5-haiku-20241022-v1:0'',
      prompt = promptText,
      maxOutputTokens = configGet (maxTokens config) 150\<rparr>"

text \<open>
  \<^verbatim>\<open>getCompletion\<close>: the \<^verbatim>\<open>try\<close> block returns \<^verbatim>\<open>result.text || null\<close>, the \<^verbatim>\<open>catch\<close> block sets
  the status and returns \<^verbatim>\<open>null\<close>. The result is a sum so that an exception leaving the function
  would be a value \<open>Inl\<close>.
\<close>

definition getCompletion ::
  "backend \<Rightarrow> string \<Rightarrow> WorkspaceConfiguration \<Rightarrow> world \<Rightarrow> (error + string option) \<times> world" where
  "getCompletion generateText promptText config w =
     (let req = completionRequest promptText config;
          w1 = w\<lparr>trace := trace w @ [GenerateText req]\<rparr>
      in (case generateText req of
            Inr result \<Rightarrow>
              (Inr (case resultText result of
                      Some t \<Rightarrow> if t \<noteq> [] then Some t else None
                    | None \<Rightarrow> None), w1)
          | Inl err \<Rightarrow> (Inr None, setStatus ''Error - see output'' (Some ''error'') w1)))"

subsection \<open>The command \<^verbatim>\<open>complementry.triggerCompletion\<close> (part\_001)\<close>

text \<open>
  The handler is an \<^verbatim>\<open>async\<close> function. It runs without interruption up to
  \<^verbatim>\<open>await llmPromise\<close>, where it is suspended until the backend has answered; in between the
  host and other handlers run. \<^verbatim>\<open>triggerCompletion_begin\<close> is the part before the suspension:
  it yields the prompt handed to \<^verbatim>\<open>getCompletion\<close> and the position the handler keeps, or
  nothing when the handler returned at its guard. \<^verbatim>\<open>buildPrompt\<close>, started by the handler
  before the host command is issued, is taken as one step at that point. The call of
  \<^verbatim>\<open>getCompletion\<close> happens while the handler is suspended.
\<close>

definition triggerCompletion_begin ::
  "fileSystem \<Rightarrow> TextEditor option \<Rightarrow> WorkspaceConfiguration \<Rightarrow> world
     \<Rightarrow> (string \<times> Position) option \<times> world" where
  "triggerCompletion_begin fs activeTextEditor config w =
     (case activeTextEditor of
        None \<Rightarrow> (None, setStatus ''Open a markdown file'' (Some ''warning'') w)
      | Some editor \<Rightarrow>
          if languageId (document editor) \<noteq> ''markdown''
          then (None, setStatus ''Open a markdown file'' (Some ''warning'') w)
          else (let doc = document editor;
                    pos = selectionActive editor;
                    w1 = setStatus ''Fetching...'' (Some ''loading~spin'') w;
                    w2 = createPendingRequest (uri doc) pos w1;
                    defaultTemplate = configGet (defaultPromptTemplate config)
                      (''Continue writing the following markdown document naturally. ''
                       @ ''Only provide the continuation text, no explanations:''
                       @ newline @ newline @ ''{document}'' @ newline @ newline @ ''Continuation:'');
                    (promptText, m) = buildPrompt fs doc pos defaultTemplate (settings w2);
                    w3 = w2\<lparr>settings := m\<rparr>;
                    w4 = executeCommand ''editor.action.inlineSuggest.trigger'' w3
                in (Some (promptText, pos), w4)))"

text \<open>
  The part after \<^verbatim>\<open>await llmPromise\<close>. A rejected \<^verbatim>\<open>llmPromise\<close> would make the \<^verbatim>\<open>await\<close> throw
  and end the handler there.
\<close>

definition triggerCompletion_resume :: "Position \<Rightarrow> error + string option \<Rightarrow> world \<Rightarrow> world" where
  "triggerCompletion_resume pos llm w =
     (case llm of
        Inl err \<Rightarrow> w
      | Inr completion \<Rightarrow>
          (case completion of
             Some c \<Rightarrow>
               if c \<noteq> []
               then setStatus ''Ready - Tab to accept'' (Some ''check'')
                      (resolveRequest
                         [\<lparr>insertText = c,
                           itemRange = Some \<lparr>rangeStart = pos, rangeEnd = pos\<rparr>\<rparr>] w)
               else setStatus ''No completion'' (Some ''warning'') (resolveRequest [] w)
           | None \<Rightarrow> setStatus ''No completion'' (Some ''warning'') (resolveRequest [] w)))"

text \<open>One run of the handler in which nothing else happens while it is suspended.\<close>

definition triggerCompletion ::
  "fileSystem \<Rightarrow> backend \<Rightarrow> TextEditor option \<Rightarrow> WorkspaceConfiguration \<Rightarrow> world \<Rightarrow> world" where
  "triggerCompletion fs generateText activeTextEditor config w =
     (case triggerCompletion_begin fs activeTextEditor config w of
        (None, w1) \<Rightarrow> w1
      | (Some (promptText, pos), w1) \<Rightarrow>
          (let (llm, w2) = getCompletion generateText promptText config w1
           in triggerCompletion_resume pos llm w2))"

text \<open>The item list the resumed handler hands to \<^verbatim>\<open>resolveRequest\<close> for an answer of the backend client.\<close>

definition completionItems :: "Position \<Rightarrow> string option \<Rightarrow> InlineCompletionItem list" where
  "completionItems pos completion =
     (case completion of
        Some c \<Rightarrow> if c \<noteq> [] then [\<lparr>insertText = c,
                       itemRange = Some \<lparr>rangeStart = pos, rangeEnd = pos\<rparr>\<rparr>] else []
      | None \<Rightarrow> [])"

subsection \<open>Fixtures\<close>

text \<open>A document of one line, as the host presents it for ranges inside that line.\<close>

definition singleLineDocument :: "string \<Rightarrow> string \<Rightarrow> string \<Rightarrow> TextDocument" where
  "singleLineDocument docUri lang txt =
     \<lparr>uri = docUri, languageId = lang, getText = txt,
      getTextRange = (\<lambda>r. take (character (rangeEnd r) - character (rangeStart r))
                            (drop (character (rangeStart r)) txt)),
      positionAt = (\<lambda>n. \<lparr>line = 0, character = min n (length txt)\<rparr>)\<rparr>"

text \<open>
  An editor on the one-line markdown document \<^verbatim>\<open>foobar\<close> with the cursor behind \<^verbatim>\<open>foo\<close>, a
  configuration with a short default template, a file system without files, a backend that
  answers \<^verbatim>\<open>baz\<close> and one that fails.
\<close>

definition exampleEditor :: TextEditor where
  "exampleEditor =
     \<lparr>document = singleLineDocument ''file:///a.md'' ''markdown'' ''foobar'',
      selectionActive = \<lparr>line = 0, character = 3\<rparr>\<rparr>"

definition exampleConfig :: WorkspaceConfiguration where
  "exampleConfig =
     \<lparr>model = None, maxTokens = None, awsRegion = None,
      defaultPromptTemplate = Some ''{before_cursor}[X]{after_cursor}''\<rparr>"

definition noFiles :: fileSystem where
  "noFiles = (\<lambda>path. Inl (Error ''ENOENT''))"

definition answeringBackend :: backend where
  "answeringBackend = (\<lambda>req. Inr \<lparr>resultText = Some ''baz'', finishReason = ''stop''\<rparr>)"

definition failingBackend :: backend where
  "failingBackend = (\<lambda>req. Inl (Error ''ETIMEDOUT''))"


subsection \<open>Runs of the extension\<close>

text \<open>
  What can happen after activation, in any order: the user runs the trigger command, the
  backend answers the request of a handler that is suspended at \<^verbatim>\<open>await llmPromise\<close>, and the
  host calls the provider. A handler that passed its guard is kept with the prompt, position
  and configuration it holds while suspended; \<open>ended\<close> is empty until the handler has been
  resumed and has run to its end, and then holds what \<^verbatim>\<open>llmPromise\<close> delivered. The call of
  \<^verbatim>\<open>getCompletion\<close> and the backend's answer to it are taken as one step, at the time of the
  answer; the answer is part of the action, so the backend may answer each request as it
  likes.
\<close>

record handlerRun =
  hPrompt :: string
  hPosition :: Position
  hConfig :: WorkspaceConfiguration
  ended :: "(error + string option) option"


datatype action =
    Trigger "TextEditor option" WorkspaceConfiguration
  | BackendAnswer nat "error + GenerateTextResult"
  | Provide TextDocument Position




text \<open>The item lists built from the answers with which handlers were resumed.\<close>

definition handlerItems :: "handlerRun \<Rightarrow> InlineCompletionItem list list" where
  "handlerItems h =
     (case ended h of
        Some (Inr completion) \<Rightarrow> [completionItems (hPosition h) completion]
      | Some (Inl err) \<Rightarrow> []
      | None \<Rightarrow> [])"

definition answeredItems :: "handlerRun list \<Rightarrow> InlineCompletionItem list list" where
  "answeredItems hs = concat (map handlerItems hs)"



subsection \<open>Templates as the specification describes them\<close>

text \<open>
  Modelled from the spec's words, for comparison with \<^verbatim>\<open>buildPrompt\<close>: building the prompt
  puts the value of each of the five placeholders in the place of each of its occurrences in
  the template and leaves every other character as it is. \<open>parseTemplate\<close> reads a template
  from left to right into its placeholder occurrences and its other characters, and
  \<open>fillTemplate\<close> puts the values in. The code has no such structure: it works on the string,
  one replacement after the other.
\<close>

datatype placeholder = Document | BeforeCursor | AfterCursor | ContextFiles | Cursor


text \<open>The text the regular expressions of \<^verbatim>\<open>buildPrompt\<close> match.\<close>

fun token :: "placeholder \<Rightarrow> string" where
  "token Document = ''{document}''"
| "token BeforeCursor = ''{before_cursor}''"
| "token AfterCursor = ''{after_cursor}''"
| "token ContextFiles = ''{context_files}''"
| "token Cursor = ''{cursor}''"


datatype part = Lit char | Placeholder placeholder



fun renderPart :: "part \<Rightarrow> string" where
  "renderPart (Lit c) = [c]"
| "renderPart (Placeholder k) = token k"

definition renderTemplate :: "part list \<Rightarrow> string" where
  "renderTemplate parts = concat (map renderPart parts)"


fun fillPart :: "(placeholder \<Rightarrow> string) \<Rightarrow> part \<Rightarrow> string" where
  "fillPart val (Lit c) = [c]"
| "fillPart val (Placeholder k) = val k"

definition fillTemplate :: "(placeholder \<Rightarrow> string) \<Rightarrow> part list \<Rightarrow> string" where
  "fillTemplate val parts = concat (map (fillPart val) parts)"

text \<open>
  The string during the replacements, as parts: replacing placeholder \<open>k\<close> by \<open>v\<close> turns the
  occurrences of \<open>k\<close> into the characters of \<open>v\<close>.
\<close>

fun substPart :: "placeholder \<Rightarrow> string \<Rightarrow> part \<Rightarrow> part list" where
  "substPart k v (Placeholder j) = (if j = k then map Lit v else [Placeholder j])"
| "substPart k v (Lit c) = [Lit c]"

definition substParts :: "placeholder \<Rightarrow> string \<Rightarrow> part list \<Rightarrow> part list" where
  "substParts k v parts = concat (map (substPart k v) parts)"





text \<open>
  The chain of \<^verbatim>\<open>replace\<close> calls as a list of steps, each a placeholder with its value, so that
  a part of the chain can be named.
\<close>

definition replaceEach :: "(placeholder \<times> string) list \<Rightarrow> string \<Rightarrow> string" where
  "replaceEach steps str = foldl (\<lambda>s (k, v). replaceGlobal (token k) v s) str steps"


section \<open>Properties\<close>

subsection \<open>The settings store\<close>

lemma getSettings_cases:
  "getSettings u m = (case m u of None \<Rightarrow> (defaultSettings, m(u \<mapsto> defaultSettings)) | Some s \<Rightarrow> (s, m))"
  by (simp add: getSettings_def split: option.splits)

lemma getSettings_stored: "snd (getSettings u m) u = Some (fst (getSettings u m))"
  by (simp add: getSettings_cases split: option.splits)

lemma getSettings_again: "getSettings u (snd (getSettings u m)) = getSettings u m"
  by (simp add: getSettings_cases split: option.splits)

lemma indexOf_ge: "- 1 \<le> indexOf xs x"
  by (induction xs) (auto simp: Let_def)

lemma indexOf_absent: "indexOf xs x = - 1 \<longleftrightarrow> x \<notin> set xs"
proof (induction xs)
  case Nil
  then show ?case by simp
next
  case (Cons y ys)
  from indexOf_ge [of ys x] have "indexOf ys x + 1 \<noteq> - 1" by linarith
  with Cons show ?case by (simp add: Let_def)
qed

lemma indexOf_found: "- 1 < indexOf xs x \<longleftrightarrow> x \<in> set xs"
  using indexOf_ge [of xs x] indexOf_absent [of xs x] by linarith

lemma splice1_indexOf: "x \<in> set xs \<Longrightarrow> splice1 (nat (indexOf xs x)) xs = remove1 x xs"
proof (induction xs)
  case Nil
  then show ?case by simp
next
  case (Cons y ys)
  show ?case
  proof (cases "y = x")
    case True
    then show ?thesis by (simp add: splice1_def)
  next
    case False
    with Cons.prems have mem: "x \<in> set ys" by simp
    then have nn: "0 \<le> indexOf ys x" using indexOf_found [of ys x] by simp
    then have "nat (indexOf ys x + 1) = Suc (nat (indexOf ys x))" by simp
    with False mem nn Cons.IH show ?thesis
      by (simp add: splice1_def Let_def)
  qed
qed

lemma removeContextFile_cases:
  "removeContextFile u p m =
     (let (s, m1) = getSettings u m
      in if p \<in> set (contextFiles s) then m1(u \<mapsto> s\<lparr>contextFiles := remove1 p (contextFiles s)\<rparr>) else m1)"
  by (simp add: removeContextFile_def Let_def indexOf_found splice1_indexOf split: prod.splits)


lemma filesDistinct_step: "filesDistinct m \<Longrightarrow> filesDistinct (applySettingsOp m x)"
  by (cases x)
     (auto simp: filesDistinct_def setPromptTemplate_def addContextFile_def removeContextFile_cases
         getSettings_cases defaultSettings_def Let_def split: option.splits if_splits)

lemma filesDistinct_foldl: "filesDistinct m \<Longrightarrow> filesDistinct (foldl applySettingsOp m ops)"
  by (induction ops arbitrary: m) (simp_all add: filesDistinct_step)

lemma filesDistinct_run: "filesDistinct (runSettingsOps ops)"
proof -
  have "filesDistinct Map.empty" by (simp add: filesDistinct_def)
  then show ?thesis unfolding runSettingsOps_def by (rule filesDistinct_foldl)
qed

lemma addContextFile_twice: "addContextFile u p (addContextFile u p m) = addContextFile u p m"
  by (auto simp: addContextFile_def getSettings_cases Let_def split: option.splits)

lemma addContextFile_member:
  "p \<in> set (contextFiles (fst (getSettings u (addContextFile u p m))))"
  by (auto simp: addContextFile_def getSettings_cases Let_def split: option.splits)

lemma addContextFile_distinct:
  "filesDistinct m \<Longrightarrow> filesDistinct (addContextFile u p m)"
  using filesDistinct_step [of m "AddContextFile u p"] by simp

lemma getSettings_distinct: "filesDistinct m \<Longrightarrow> distinct (contextFiles (fst (getSettings u m)))"
  by (auto simp: filesDistinct_def getSettings_cases defaultSettings_def split: option.splits)

lemma count_one: "distinct xs \<Longrightarrow> x \<in> set xs \<Longrightarrow> count_list xs x = 1"
  by (induction xs) auto

text \<open>
  Claim C9. Adding the same context file twice is the same as adding it once, and in every
  state the store can reach the path then occurs exactly once in the document's list.
  Removing a path that is not in the list does nothing beyond the lazy creation of the
  document's default entry that \<^verbatim>\<open>getSettings\<close> performs, so the settings of every document
  read the same afterwards. \<^verbatim>\<open>getSettings\<close> always finds the entry it returns in the map, and
  on first access that entry is the default with no context files.
\<close>

theorem settings_idempotence:
  "addContextFile u p (addContextFile u p m) = addContextFile u p m
   \<and> count_list (contextFiles (fst (getSettings u
        (addContextFile u p (addContextFile u p (runSettingsOps ops)))))) p = 1
   \<and> (p \<notin> set (contextFiles (fst (getSettings u m))) \<longrightarrow>
        removeContextFile u p m = snd (getSettings u m)
        \<and> (\<forall>v. fst (getSettings v (removeContextFile u p m)) = fst (getSettings v m)))
   \<and> snd (getSettings u m) u = Some (fst (getSettings u m))
   \<and> (m u = None \<longrightarrow> fst (getSettings u m) = defaultSettings)"
proof -
  have a: "addContextFile u p (addContextFile u p m) = addContextFile u p m"
    by (rule addContextFile_twice)
  have "filesDistinct (addContextFile u p (runSettingsOps ops))"
    by (rule addContextFile_distinct [OF filesDistinct_run])
  then have b: "count_list (contextFiles (fst (getSettings u
        (addContextFile u p (addContextFile u p (runSettingsOps ops)))))) p = 1"
    unfolding addContextFile_twice
    by (intro count_one getSettings_distinct addContextFile_member)
  have c: "removeContextFile u p m = snd (getSettings u m)
        \<and> (\<forall>v. fst (getSettings v (removeContextFile u p m)) = fst (getSettings v m))"
    if "p \<notin> set (contextFiles (fst (getSettings u m)))"
    using that
    by (auto simp: removeContextFile_cases getSettings_cases Let_def split: option.splits prod.splits)
  have d: "m u = None \<longrightarrow> fst (getSettings u m) = defaultSettings"
    by (simp add: getSettings_cases)
  from a b c d getSettings_stored show ?thesis by blast
qed

theorem settings_idempotence_witness:
  "''/ctx/b.md'' \<notin> set (contextFiles (fst (getSettings ''file:///doc.md''
      (addContextFile ''file:///doc.md'' ''/ctx/a.md'' Map.empty))))
   \<and> removeContextFile ''file:///doc.md'' ''/ctx/b.md''
        (addContextFile ''file:///doc.md'' ''/ctx/a.md'' Map.empty)
      = snd (getSettings ''file:///doc.md'' (addContextFile ''file:///doc.md'' ''/ctx/a.md'' Map.empty))
   \<and> (Map.empty :: settingsMap) ''file:///doc.md'' = None
   \<and> fst (getSettings ''file:///doc.md'' Map.empty) = defaultSettings
   \<and> contextFiles (fst (getSettings ''file:///doc.md''
        (addContextFile ''file:///doc.md'' ''/ctx/a.md''
          (addContextFile ''file:///doc.md'' ''/ctx/a.md'' Map.empty)))) = [''/ctx/a.md'']"
proof -
  have h: "''/ctx/b.md'' \<notin> set (contextFiles (fst (getSettings ''file:///doc.md''
      (addContextFile ''file:///doc.md'' ''/ctx/a.md'' Map.empty))))"
    by (simp add: addContextFile_def getSettings_def defaultSettings_def Let_def)
  have e: "contextFiles (fst (getSettings ''file:///doc.md''
        (addContextFile ''file:///doc.md'' ''/ctx/a.md''
          (addContextFile ''file:///doc.md'' ''/ctx/a.md'' Map.empty)))) = [''/ctx/a.md'']"
    by (simp add: addContextFile_def getSettings_def defaultSettings_def Let_def)
  show ?thesis
    using h e
      settings_idempotence [of "''file:///doc.md''" "''/ctx/b.md''"
        "addContextFile ''file:///doc.md'' ''/ctx/a.md'' Map.empty" "[]"]
      settings_idempotence [of "''file:///doc.md''" "''/ctx/a.md''" Map.empty "[]"]
    by simp
qed

subsection \<open>The request coordinator\<close>

lemma created_append [simp]: "created (a @ b) = created a @ created b"
  by (induction a rule: created.induct) simp_all

lemma resolveCalls_append [simp]: "resolveCalls p (a @ b) = resolveCalls p a @ resolveCalls p b"
  by (induction p a rule: resolveCalls.induct) simp_all

lemma unsettled_Nil [simp]: "unsettled [] = []"
  by (simp add: unsettled_def)

lemma unsettled_ResolveCall:
  "unsettled (tr @ [ResolveCall q items]) = filter (\<lambda>p. p \<noteq> q) (unsettled tr)"
  by (auto simp: unsettled_def intro: filter_cong)

lemma unsettled_NewPromise:
  "unsettled (tr @ [NewPromise q]) = unsettled tr @ (if resolveCalls q tr = [] then [q] else [])"
  by (simp add: unsettled_def)

lemma unsettled_ExecuteCommand [simp]: "unsettled (tr @ [ExecuteCommand c]) = unsettled tr"
  by (simp add: unsettled_def)

lemma unsettled_GenerateText [simp]: "unsettled (tr @ [GenerateText req]) = unsettled tr"
  by (simp add: unsettled_def)

lemma unsettled_subset: "set (unsettled tr) \<subseteq> set (created tr)"
  by (auto simp: unsettled_def)

lemma unsettled_no_calls: "p \<in> set (unsettled tr) \<Longrightarrow> resolveCalls p tr = []"
  by (simp add: unsettled_def)

text \<open>What one step of the coordinator appends to the trace.\<close>

lemma trace_resolveRequest:
  "trace (resolveRequest items w) =
     trace w @ (case pendingRequest w of None \<Rightarrow> [] | Some r \<Rightarrow> [ResolveCall (promise r) items])"
  by (simp add: resolveRequest_def resolvePromise_def split: option.splits)

lemma pending_resolveRequest [simp]: "pendingRequest (resolveRequest items w) = None"
  by (simp add: resolveRequest_def resolvePromise_def split: option.splits)

lemma cancelRequest_eq: "cancelRequest w = resolveRequest [] w"
  by (simp add: cancelRequest_def resolveRequest_def)

lemma trace_createPendingRequest:
  "trace (createPendingRequest u pos w) =
     trace w @ (case pendingRequest w of None \<Rightarrow> [] | Some r \<Rightarrow> [ResolveCall (promise r) []])
       @ [NewPromise (length (created (trace w)))]"
  by (simp add: createPendingRequest_def resolvePromise_def newPromise_def Let_def
      split: option.splits)

lemma pending_createPendingRequest:
  "pendingRequest (createPendingRequest u pos w) =
     Some \<lparr>documentUri = u, position = pos, promise = length (created (trace w))\<rparr>"
  by (simp add: createPendingRequest_def resolvePromise_def newPromise_def Let_def
      split: option.splits)

lemma coordinatorInv_initial: "coordinatorInv initialWorld"
  by (simp add: coordinatorInv_def initialWorld_def slotPromises_def)

lemma coordinatorInv_fresh:
  "coordinatorInv w \<Longrightarrow> resolveCalls (length (created (trace w))) (trace w) = []"
  unfolding coordinatorInv_def by (metis less_irrefl)

lemma coordinatorInv_slot:
  assumes "coordinatorInv w" "pendingRequest w = Some r"
  shows "resolveCalls (promise r) (trace w) = []" "promise r < length (created (trace w))"
proof -
  from assms have u: "unsettled (trace w) = [promise r]"
    by (simp add: coordinatorInv_def slotPromises_def)
  then show "resolveCalls (promise r) (trace w) = []"
    using unsettled_no_calls [of "promise r" "trace w"] by simp
  from u have "promise r \<in> set (created (trace w))"
    using unsettled_subset [of "trace w"] by auto
  moreover from assms have "created (trace w) = [0..<length (created (trace w))]"
    by (simp add: coordinatorInv_def)
  ultimately have "promise r \<in> set [0..<length (created (trace w))]" by simp
  then show "promise r < length (created (trace w))" by simp
qed

lemma coordinatorInv_resolveRequest:
  assumes "coordinatorInv w"
  shows "coordinatorInv (resolveRequest items w)"
proof (cases "pendingRequest w")
  case None
  then have "resolveRequest items w = w" by (simp add: resolveRequest_def)
  with assms show ?thesis by simp
next
  case (Some r)
  note slot = coordinatorInv_slot [OF assms Some]
  from assms Some have u: "unsettled (trace w) = [promise r]"
    by (simp add: coordinatorInv_def slotPromises_def)
  have tr: "trace (resolveRequest items w) = trace w @ [ResolveCall (promise r) items]"
    by (simp add: trace_resolveRequest Some)
  from assms have ids: "created (trace w) = [0..<length (created (trace w))]"
    and once: "\<And>p. length (resolveCalls p (trace w)) \<le> 1"
    and old: "\<And>p. resolveCalls p (trace w) \<noteq> [] \<Longrightarrow> p < length (created (trace w))"
    by (simp_all add: coordinatorInv_def)
  show ?thesis
    unfolding coordinatorInv_def tr
  proof (intro conjI allI impI)
    show "created (trace w @ [ResolveCall (promise r) items]) =
        [0..<length (created (trace w @ [ResolveCall (promise r) items]))]"
      using ids by simp
    show "length (resolveCalls p (trace w @ [ResolveCall (promise r) items])) \<le> 1" for p
      using once [of p] slot(1) by (cases "promise r = p") simp_all
    show "p < length (created (trace w @ [ResolveCall (promise r) items]))"
      if "resolveCalls p (trace w @ [ResolveCall (promise r) items]) \<noteq> []" for p
      using that old [of p] slot(2) by (cases "promise r = p") simp_all
    show "unsettled (trace w @ [ResolveCall (promise r) items]) =
        slotPromises (resolveRequest items w)"
      by (simp add: unsettled_ResolveCall u slotPromises_def)
  qed
qed

lemma coordinatorInv_createPendingRequest:
  assumes "coordinatorInv w"
  shows "coordinatorInv (createPendingRequest u pos w)"
proof -
  let ?w1 = "resolveRequest [] w"
  have inv1: "coordinatorInv ?w1" by (rule coordinatorInv_resolveRequest [OF assms])
  have cr: "created (trace ?w1) = created (trace w)"
    by (simp add: trace_resolveRequest split: option.splits)
  let ?n = "length (created (trace w))"
  have tr: "trace (createPendingRequest u pos w) = trace ?w1 @ [NewPromise ?n]"
    by (simp add: trace_createPendingRequest trace_resolveRequest)
  from inv1 have ids: "created (trace ?w1) = [0..<?n]"
    and once: "\<And>p. length (resolveCalls p (trace ?w1)) \<le> 1"
    and old: "\<And>p. resolveCalls p (trace ?w1) \<noteq> [] \<Longrightarrow> p < ?n"
    and u: "unsettled (trace ?w1) = []"
    by (simp_all add: coordinatorInv_def cr slotPromises_def)
  from coordinatorInv_fresh [OF inv1] have fresh: "resolveCalls ?n (trace ?w1) = []"
    by (simp add: cr)
  show ?thesis
    unfolding coordinatorInv_def tr
  proof (intro conjI allI impI)
    show "created (trace ?w1 @ [NewPromise ?n]) = [0..<length (created (trace ?w1 @ [NewPromise ?n]))]"
      using ids by (simp add: cr)
    show "length (resolveCalls p (trace ?w1 @ [NewPromise ?n])) \<le> 1" for p
      using once [of p] by simp
    show "p < length (created (trace ?w1 @ [NewPromise ?n]))"
      if "resolveCalls p (trace ?w1 @ [NewPromise ?n]) \<noteq> []" for p
      using that old [of p] by (simp add: cr)
    show "unsettled (trace ?w1 @ [NewPromise ?n]) = slotPromises (createPendingRequest u pos w)"
      by (simp add: unsettled_NewPromise u fresh slotPromises_def pending_createPendingRequest)
  qed
qed

lemma coordinatorInv_step: "coordinatorInv w \<Longrightarrow> coordinatorInv (applyCoordinatorOp w x)"
  by (cases x)
     (simp_all add: coordinatorInv_createPendingRequest coordinatorInv_resolveRequest cancelRequest_eq)

lemma coordinatorInv_foldl: "coordinatorInv w \<Longrightarrow> coordinatorInv (foldl applyCoordinatorOp w ops)"
  by (induction ops arbitrary: w) (simp_all add: coordinatorInv_step)

lemma coordinatorInv_run: "coordinatorInv (runCoordinatorOps ops)"
  unfolding runCoordinatorOps_def by (rule coordinatorInv_foldl [OF coordinatorInv_initial])


lemma coordinatorInv_length: "coordinatorInv w \<Longrightarrow> length (unsettled (trace w)) \<le> 1"
  by (simp add: coordinatorInv_def slotPromises_def split: option.splits)

lemma instants_snoc:
  assumes "\<forall>n. length (unsettled (take n tr)) \<le> 1" "length (unsettled (tr @ [e])) \<le> 1"
  shows "\<forall>n. length (unsettled (take n (tr @ [e]))) \<le> 1"
proof
  fix n
  show "length (unsettled (take n (tr @ [e]))) \<le> 1"
  proof (cases "n \<le> length tr")
    case True
    with assms(1) show ?thesis by simp
  next
    case False
    then have "take n (tr @ [e]) = tr @ [e]" by simp
    with assms(2) show ?thesis by simp
  qed
qed

lemma instants_resolveRequest:
  assumes "coordinatorInv w" "\<forall>n. length (unsettled (take n (trace w))) \<le> 1"
  shows "\<forall>n. length (unsettled (take n (trace (resolveRequest items w)))) \<le> 1"
proof (cases "pendingRequest w")
  case None
  with assms(2) show ?thesis by (simp add: trace_resolveRequest)
next
  case (Some r)
  have "length (unsettled (trace (resolveRequest items w))) \<le> 1"
    by (rule coordinatorInv_length [OF coordinatorInv_resolveRequest [OF assms(1)]])
  then show ?thesis
    using instants_snoc [OF assms(2), of "ResolveCall (promise r) items"]
    by (simp add: trace_resolveRequest Some)
qed

lemma instants_createPendingRequest:
  assumes "coordinatorInv w" "\<forall>n. length (unsettled (take n (trace w))) \<le> 1"
  shows "\<forall>n. length (unsettled (take n (trace (createPendingRequest u pos w)))) \<le> 1"
proof -
  have tr: "trace (createPendingRequest u pos w) =
      trace (resolveRequest [] w) @ [NewPromise (length (created (trace w)))]"
    by (simp add: trace_createPendingRequest trace_resolveRequest)
  have "length (unsettled (trace (createPendingRequest u pos w))) \<le> 1"
    by (rule coordinatorInv_length [OF coordinatorInv_createPendingRequest [OF assms(1)]])
  then show ?thesis
    using instants_snoc [OF instants_resolveRequest [OF assms, of "[]"],
        of "NewPromise (length (created (trace w)))"]
    by (simp add: tr)
qed

lemma instants_foldl:
  "coordinatorInv w \<Longrightarrow> \<forall>n. length (unsettled (take n (trace w))) \<le> 1 \<Longrightarrow>
     \<forall>n. length (unsettled (take n (trace (foldl applyCoordinatorOp w ops)))) \<le> 1"
proof (induction ops arbitrary: w)
  case Nil
  then show ?case by simp
next
  case (Cons x ops)
  have "\<forall>n. length (unsettled (take n (trace (applyCoordinatorOp w x)))) \<le> 1"
    using instants_createPendingRequest [OF Cons.prems] instants_resolveRequest [OF Cons.prems]
    by (cases x) (simp_all add: cancelRequest_eq)
  with Cons.IH [OF coordinatorInv_step [OF Cons.prems(1)]] show ?case by simp
qed

lemma instants_run: "length (unsettled (take n (trace (runCoordinatorOps ops)))) \<le> 1"
proof -
  have "\<forall>n. length (unsettled (take n (trace initialWorld))) \<le> 1"
    by (simp add: initialWorld_def)
  from instants_foldl [OF coordinatorInv_initial this] show ?thesis
    by (simp add: runCoordinatorOps_def)
qed

lemma supersede_pending:
  assumes "coordinatorInv w" "pendingRequest w = Some r"
  shows "trace (createPendingRequest u pos w) =
           trace w @ [ResolveCall (promise r) [], NewPromise (length (created (trace w)))]"
    and "promiseState (promise r) (trace w) = Pending"
    and "promiseState (promise r) (trace w @ [ResolveCall (promise r) []]) = Fulfilled []"
    and "length (created (trace w)) \<notin> set (created (trace w @ [ResolveCall (promise r) []]))"
    and "unsettled (trace (createPendingRequest u pos w)) = [length (created (trace w))]"
proof -
  note slot = coordinatorInv_slot [OF assms]
  show "trace (createPendingRequest u pos w) =
           trace w @ [ResolveCall (promise r) [], NewPromise (length (created (trace w)))]"
    by (simp add: trace_createPendingRequest assms(2))
  show "promiseState (promise r) (trace w) = Pending"
    by (simp add: promiseState_def slot(1))
  show "promiseState (promise r) (trace w @ [ResolveCall (promise r) []]) = Fulfilled []"
    by (simp add: promiseState_def slot(1))
  from assms(1) have "created (trace w) = [0..<length (created (trace w))]"
    by (simp add: coordinatorInv_def)
  then have "length (created (trace w)) \<notin> set (created (trace w))"
    by (metis atLeastLessThan_iff less_irrefl set_upt)
  then show "length (created (trace w)) \<notin> set (created (trace w @ [ResolveCall (promise r) []]))"
    by simp
  from coordinatorInv_createPendingRequest [OF assms(1), of u pos]
  show "unsettled (trace (createPendingRequest u pos w)) = [length (created (trace w))]"
    by (simp add: coordinatorInv_def slotPromises_def pending_createPendingRequest)
qed

text \<open>
  Claim C1. Single flight: after any sequence of \<^verbatim>\<open>createPendingRequest\<close>, \<^verbatim>\<open>resolveRequest\<close> and
  \<^verbatim>\<open>cancelRequest\<close> calls, at every instant of the run (every prefix of the trace of effects) at
  most one created promise is unsettled, and at the end of the run the unsettled promises are
  exactly the one in the slot. When \<^verbatim>\<open>createPendingRequest\<close> is called while a request is
  pending, it first calls the old promise's \<^verbatim>\<open>resolve\<close> with the empty list, which fulfils that
  pending promise with no items, and only then creates the new promise, which did not exist
  before and is afterwards the only unsettled one.
\<close>

theorem single_flight:
  "(\<forall>n. length (unsettled (take n (trace (runCoordinatorOps ops)))) \<le> 1)
   \<and> unsettled (trace (runCoordinatorOps ops)) = slotPromises (runCoordinatorOps ops)
   \<and> (\<forall>r. pendingRequest (runCoordinatorOps ops) = Some r \<longrightarrow>
        trace (createPendingRequest u pos (runCoordinatorOps ops)) =
          trace (runCoordinatorOps ops) @
            [ResolveCall (promise r) [],
             NewPromise (length (created (trace (runCoordinatorOps ops))))]
        \<and> promiseState (promise r) (trace (runCoordinatorOps ops)) = Pending
        \<and> promiseState (promise r)
             (trace (runCoordinatorOps ops) @ [ResolveCall (promise r) []]) = Fulfilled []
        \<and> length (created (trace (runCoordinatorOps ops))) \<notin>
             set (created (trace (runCoordinatorOps ops) @ [ResolveCall (promise r) []]))
        \<and> pendingRequest (createPendingRequest u pos (runCoordinatorOps ops)) =
             Some \<lparr>documentUri = u, position = pos,
                   promise = length (created (trace (runCoordinatorOps ops)))\<rparr>
        \<and> unsettled (trace (createPendingRequest u pos (runCoordinatorOps ops))) =
             [length (created (trace (runCoordinatorOps ops)))])"
proof -
  have inv: "coordinatorInv (runCoordinatorOps ops)" by (rule coordinatorInv_run)
  then have "unsettled (trace (runCoordinatorOps ops)) = slotPromises (runCoordinatorOps ops)"
    by (simp add: coordinatorInv_def)
  with instants_run supersede_pending [OF inv] pending_createPendingRequest
  show ?thesis by blast
qed

theorem single_flight_witness:
  "pendingRequest (runCoordinatorOps
       [CreatePendingRequest ''file:///a.md'' \<lparr>line = 0, character = 3\<rparr>]) =
     Some \<lparr>documentUri = ''file:///a.md'', position = \<lparr>line = 0, character = 3\<rparr>, promise = 0\<rparr>
   \<and> trace (createPendingRequest ''file:///b.md'' \<lparr>line = 1, character = 0\<rparr>
        (runCoordinatorOps [CreatePendingRequest ''file:///a.md'' \<lparr>line = 0, character = 3\<rparr>])) =
       [NewPromise 0, ResolveCall 0 [], NewPromise 1]
   \<and> unsettled (trace (createPendingRequest ''file:///b.md'' \<lparr>line = 1, character = 0\<rparr>
        (runCoordinatorOps [CreatePendingRequest ''file:///a.md'' \<lparr>line = 0, character = 3\<rparr>]))) = [1]"
proof -
  have run: "runCoordinatorOps [CreatePendingRequest ''file:///a.md'' \<lparr>line = 0, character = 3\<rparr>] =
      \<lparr>settings = Map.empty,
       pendingRequest = Some \<lparr>documentUri = ''file:///a.md'',
         position = \<lparr>line = 0, character = 3\<rparr>, promise = 0\<rparr>,
       statusBarText = ''$(sparkle) Complementry'', trace = [NewPromise 0]\<rparr>"
    by (simp add: runCoordinatorOps_def initialWorld_def createPendingRequest_def newPromise_def)
  let ?w = "runCoordinatorOps [CreatePendingRequest ''file:///a.md'' \<lparr>line = 0, character = 3\<rparr>]"
  let ?r = "\<lparr>documentUri = ''file:///a.md'', position = \<lparr>line = 0, character = 3\<rparr>, promise = 0\<rparr>"
  have h: "pendingRequest ?w = Some ?r" by (simp add: run)
  from single_flight [of "[CreatePendingRequest ''file:///a.md'' \<lparr>line = 0, character = 3\<rparr>]"
        "''file:///b.md''" "\<lparr>line = 1, character = 0\<rparr>"] h
  have "trace (createPendingRequest ''file:///b.md'' \<lparr>line = 1, character = 0\<rparr> ?w) =
          trace ?w @ [ResolveCall (promise ?r) [], NewPromise (length (created (trace ?w)))]
        \<and> unsettled (trace (createPendingRequest ''file:///b.md'' \<lparr>line = 1, character = 0\<rparr> ?w)) =
             [length (created (trace ?w))]"
    by blast
  moreover have "trace ?w = [NewPromise 0]" by (simp add: run)
  ultimately show ?thesis using h by (simp add: unsettled_def)
qed


subsection \<open>What the provider sees\<close>

text \<open>
  Claim C3, as stated, fails on the stored-result variant: reading a stored result through
  \<^verbatim>\<open>getCompletionResult\<close> returns the result and raises \<^verbatim>\<open>resultCallCount\<close> from 0 to 1, so the
  manager is not left as it was.
\<close>

theorem peekPending_stored_counterexample:
  "fst (getCompletionResult ''file:///doc.md''
          (setCompletionResult ''file:///doc.md'' [\<lparr>insertText = ''baz'', itemRange = None\<rparr>]
             newCompletionTriggerManager)) = Some [\<lparr>insertText = ''baz'', itemRange = None\<rparr>]
   \<and> resultCallCount (setCompletionResult ''file:///doc.md''
          [\<lparr>insertText = ''baz'', itemRange = None\<rparr>] newCompletionTriggerManager) = 0
   \<and> resultCallCount (snd (getCompletionResult ''file:///doc.md''
          (setCompletionResult ''file:///doc.md'' [\<lparr>insertText = ''baz'', itemRange = None\<rparr>]
             newCompletionTriggerManager))) = 1
   \<and> snd (getCompletionResult ''file:///doc.md''
          (setCompletionResult ''file:///doc.md'' [\<lparr>insertText = ''baz'', itemRange = None\<rparr>]
             newCompletionTriggerManager))
       \<noteq> setCompletionResult ''file:///doc.md'' [\<lparr>insertText = ''baz'', itemRange = None\<rparr>]
             newCompletionTriggerManager"
  by (simp add: getCompletionResult_def setCompletionResult_def newCompletionTriggerManager_def
      Let_def)

text \<open>
  Claim C3, amended. \<^verbatim>\<open>getPendingPromise\<close> is a pure read: it leaves the world as it is and
  returns a promise exactly when a request is pending whose document is the one asked for,
  and then that request's promise. \<^verbatim>\<open>getCompletionResult\<close> returns the stored result when the
  stored document is the one asked for and \<^verbatim>\<open>null\<close> otherwise; it leaves the manager unchanged
  only when it returns \<^verbatim>\<open>null\<close>. When it returns a result it adds one to \<^verbatim>\<open>resultCallCount\<close>, and
  from the fourth such call on it also clears the stored result and document.
\<close>

theorem peekPending_read:
  "snd (getPendingPromise u w) = w
   \<and> (fst (getPendingPromise u w) = Some p \<longleftrightarrow>
        (\<exists>r. pendingRequest w = Some r \<and> documentUri r = u \<and> promise r = p))
   \<and> fst (getCompletionResult u tm) =
        (if completionDocUri tm = Some u then completionResult tm else None)
   \<and> (fst (getCompletionResult u tm) = None \<longrightarrow> snd (getCompletionResult u tm) = tm)
   \<and> (fst (getCompletionResult u tm) \<noteq> None \<longrightarrow>
        snd (getCompletionResult u tm) =
          (if resultCallCount tm < 3
           then tm\<lparr>resultCallCount := resultCallCount tm + 1\<rparr>
           else tm\<lparr>resultCallCount := resultCallCount tm + 1,
                   completionResult := None, completionDocUri := None\<rparr>))"
proof -
  have a: "snd (getPendingPromise u w) = w"
    by (simp add: getPendingPromise_def split: option.splits)
  have b: "fst (getPendingPromise u w) = Some p \<longleftrightarrow>
        (\<exists>r. pendingRequest w = Some r \<and> documentUri r = u \<and> promise r = p)"
    by (auto simp: getPendingPromise_def split: option.splits)
  have c: "fst (getCompletionResult u tm) =
        (if completionDocUri tm = Some u then completionResult tm else None)"
    by (auto simp: getCompletionResult_def Let_def)
  have d: "fst (getCompletionResult u tm) = None \<longrightarrow> snd (getCompletionResult u tm) = tm"
    by (auto simp: getCompletionResult_def Let_def)
  have e: "fst (getCompletionResult u tm) \<noteq> None \<longrightarrow>
        snd (getCompletionResult u tm) =
          (if resultCallCount tm < 3
           then tm\<lparr>resultCallCount := resultCallCount tm + 1\<rparr>
           else tm\<lparr>resultCallCount := resultCallCount tm + 1,
                   completionResult := None, completionDocUri := None\<rparr>)"
    by (auto simp: getCompletionResult_def Let_def)
  from a b c d e show ?thesis by blast
qed

theorem peekPending_read_witness:
  "fst (getCompletionResult ''file:///other.md''
          (setCompletionResult ''file:///doc.md'' [] newCompletionTriggerManager)) = None
   \<and> snd (getCompletionResult ''file:///other.md''
          (setCompletionResult ''file:///doc.md'' [] newCompletionTriggerManager))
       = setCompletionResult ''file:///doc.md'' [] newCompletionTriggerManager
   \<and> fst (getCompletionResult ''file:///doc.md''
          (setCompletionResult ''file:///doc.md'' [] newCompletionTriggerManager)) \<noteq> None
   \<and> snd (getCompletionResult ''file:///doc.md''
          (setCompletionResult ''file:///doc.md'' [] newCompletionTriggerManager))
       = \<lparr>pendingCompletion = None, completionResult = Some [],
          completionDocUri = Some ''file:///doc.md'', lastCompletionText = None,
          resultCallCount = 1\<rparr>
   \<and> fst (getPendingPromise ''file:///doc.md''
          (createPendingRequest ''file:///doc.md'' \<lparr>line = 0, character = 3\<rparr> initialWorld)) = Some 0"
proof -
  let ?tm = "setCompletionResult ''file:///doc.md'' [] newCompletionTriggerManager"
  let ?w = "createPendingRequest ''file:///doc.md'' \<lparr>line = 0, character = 3\<rparr> initialWorld"
  have tm: "?tm = \<lparr>pendingCompletion = None, completionResult = Some [],
          completionDocUri = Some ''file:///doc.md'', lastCompletionText = None,
          resultCallCount = 0\<rparr>"
    by (simp add: setCompletionResult_def newCompletionTriggerManager_def)
  have h1: "fst (getCompletionResult ''file:///other.md'' ?tm) = None"
    by (simp add: tm getCompletionResult_def)
  have h2: "fst (getCompletionResult ''file:///doc.md'' ?tm) \<noteq> None"
    by (simp add: tm getCompletionResult_def Let_def)
  have h3: "\<exists>r. pendingRequest ?w = Some r \<and> documentUri r = ''file:///doc.md'' \<and> promise r = 0"
    by (simp add: createPendingRequest_def newPromise_def initialWorld_def)
  from peekPending_read [of "''file:///other.md''" ?w 0 ?tm] h1
  have r1: "snd (getCompletionResult ''file:///other.md'' ?tm) = ?tm" by blast
  from peekPending_read [of "''file:///doc.md''" ?w 0 ?tm] h2 h3
  have r2: "snd (getCompletionResult ''file:///doc.md'' ?tm) =
          (if resultCallCount ?tm < 3
           then ?tm\<lparr>resultCallCount := resultCallCount ?tm + 1\<rparr>
           else ?tm\<lparr>resultCallCount := resultCallCount ?tm + 1,
                   completionResult := None, completionDocUri := None\<rparr>)"
    and r3: "fst (getPendingPromise ''file:///doc.md'' ?w) = Some 0"
    by blast+
  from r2 have r2': "snd (getCompletionResult ''file:///doc.md'' ?tm) =
      \<lparr>pendingCompletion = None, completionResult = Some [],
          completionDocUri = Some ''file:///doc.md'', lastCompletionText = None,
          resultCallCount = 1\<rparr>"
    by (simp add: tm)
  from h1 h2 r1 r2' r3 show ?thesis by blast
qed

text \<open>
  Claim C5. For a document whose language is not \<^verbatim>\<open>markdown\<close> the provider returns \<^verbatim>\<open>null\<close> and
  touches nothing, whatever request is pending or result stored for any document. For a
  markdown document it returns what \<^verbatim>\<open>getPendingPromise\<close> (in the stored-result variant,
  \<^verbatim>\<open>getCompletionResult\<close>) yields for the document's URI: the pending promise, or \<^verbatim>\<open>null\<close>. The
  provider of part\_001 never changes the world, so it records no backend call and no other
  effect.
\<close>

theorem provider_decline:
  "(languageId doc \<noteq> ''markdown'' \<longrightarrow>
       provideInlineCompletionItems doc pos w = (None, w)
       \<and> provideInlineCompletionItems_stored doc pos tm = (None, tm))
   \<and> (languageId doc = ''markdown'' \<longrightarrow>
       provideInlineCompletionItems doc pos w = getPendingPromise (uri doc) w
       \<and> provideInlineCompletionItems_stored doc pos tm = getCompletionResult (uri doc) tm)
   \<and> snd (provideInlineCompletionItems doc pos w) = w"
  by (auto simp: provideInlineCompletionItems_def provideInlineCompletionItems_stored_def
      getPendingPromise_def split: option.splits prod.splits)

theorem provider_decline_witness:
  "languageId (singleLineDocument ''file:///notes.txt'' ''plaintext'' ''foo'') \<noteq> ''markdown''
   \<and> pendingRequest (createPendingRequest ''file:///a.md'' \<lparr>line = 0, character = 3\<rparr> initialWorld)
       = Some \<lparr>documentUri = ''file:///a.md'', position = \<lparr>line = 0, character = 3\<rparr>, promise = 0\<rparr>
   \<and> fst (provideInlineCompletionItems (singleLineDocument ''file:///notes.txt'' ''plaintext'' ''foo'')
        \<lparr>line = 0, character = 1\<rparr>
        (createPendingRequest ''file:///a.md'' \<lparr>line = 0, character = 3\<rparr> initialWorld)) = None
   \<and> languageId (singleLineDocument ''file:///a.md'' ''markdown'' ''foobar'') = ''markdown''
   \<and> fst (provideInlineCompletionItems (singleLineDocument ''file:///a.md'' ''markdown'' ''foobar'')
        \<lparr>line = 0, character = 4\<rparr>
        (createPendingRequest ''file:///a.md'' \<lparr>line = 0, character = 3\<rparr> initialWorld)) = Some 0"
proof -
  let ?w = "createPendingRequest ''file:///a.md'' \<lparr>line = 0, character = 3\<rparr> initialWorld"
  let ?txt = "singleLineDocument ''file:///notes.txt'' ''plaintext'' ''foo''"
  let ?md = "singleLineDocument ''file:///a.md'' ''markdown'' ''foobar''"
  have h1: "languageId ?txt \<noteq> ''markdown''" by (simp add: singleLineDocument_def)
  have h2: "languageId ?md = ''markdown''" by (simp add: singleLineDocument_def)
  have p: "pendingRequest ?w
       = Some \<lparr>documentUri = ''file:///a.md'', position = \<lparr>line = 0, character = 3\<rparr>, promise = 0\<rparr>"
    by (simp add: createPendingRequest_def newPromise_def initialWorld_def)
  from provider_decline [of ?txt "\<lparr>line = 0, character = 1\<rparr>" ?w newCompletionTriggerManager] h1
  have r1: "fst (provideInlineCompletionItems ?txt \<lparr>line = 0, character = 1\<rparr> ?w) = None" by simp
  from provider_decline [of ?md "\<lparr>line = 0, character = 4\<rparr>" ?w newCompletionTriggerManager] h2
  have "provideInlineCompletionItems ?md \<lparr>line = 0, character = 4\<rparr> ?w = getPendingPromise (uri ?md) ?w"
    by blast
  then have r2: "fst (provideInlineCompletionItems ?md \<lparr>line = 0, character = 4\<rparr> ?w) = Some 0"
    by (simp add: getPendingPromise_def p singleLineDocument_def)
  from h1 h2 p r1 r2 show ?thesis by blast
qed


subsection \<open>The trigger command\<close>

lemma coordinatorInv_cong:
  "trace w' = trace w \<Longrightarrow> pendingRequest w' = pendingRequest w \<Longrightarrow>
     coordinatorInv w' = coordinatorInv w"
  by (simp add: coordinatorInv_def slotPromises_def)

lemma trace_setStatus [simp]: "trace (setStatus t i w) = trace w"
  by (simp add: setStatus_def Let_def)

lemma pending_setStatus [simp]: "pendingRequest (setStatus t i w) = pendingRequest w"
  by (simp add: setStatus_def Let_def)

lemma settings_createPendingRequest [simp]:
  "settings (createPendingRequest u pos w) = settings w"
  by (simp add: createPendingRequest_def resolvePromise_def newPromise_def Let_def
      split: option.splits)

lemma begin_markdown:
  assumes "languageId (document editor) = ''markdown''"
  shows "triggerCompletion_begin fs (Some editor) config w =
     (let w2 = createPendingRequest (uri (document editor)) (selectionActive editor)
                 (setStatus ''Fetching...'' (Some ''loading~spin'') w);
          r = buildPrompt fs (document editor) (selectionActive editor)
                (configGet (defaultPromptTemplate config)
                   (''Continue writing the following markdown document naturally. ''
                    @ ''Only provide the continuation text, no explanations:''
                    @ newline @ newline @ ''{document}'' @ newline @ newline @ ''Continuation:''))
                (settings w)
      in (Some (fst r, selectionActive editor),
          executeCommand ''editor.action.inlineSuggest.trigger'' (w2\<lparr>settings := snd r\<rparr>)))"
  using assms
  by (simp add: triggerCompletion_begin_def Let_def setStatus_def split: prod.splits)

lemma trace_begin:
  assumes "languageId (document editor) = ''markdown''"
  shows "trace (snd (triggerCompletion_begin fs (Some editor) config w)) =
     trace w @ (case pendingRequest w of None \<Rightarrow> [] | Some r \<Rightarrow> [ResolveCall (promise r) []])
       @ [NewPromise (length (created (trace w))),
          ExecuteCommand ''editor.action.inlineSuggest.trigger'']"
  by (simp add: begin_markdown [OF assms] Let_def executeCommand_def trace_createPendingRequest)

lemma pending_begin:
  assumes "languageId (document editor) = ''markdown''"
  shows "pendingRequest (snd (triggerCompletion_begin fs (Some editor) config w)) =
     Some \<lparr>documentUri = uri (document editor), position = selectionActive editor,
           promise = length (created (trace w))\<rparr>"
  by (simp add: begin_markdown [OF assms] Let_def executeCommand_def pending_createPendingRequest)

lemma coordinatorInv_begin:
  assumes "coordinatorInv w"
  shows "coordinatorInv (snd (triggerCompletion_begin fs activeTextEditor config w))"
proof (cases "\<exists>editor. activeTextEditor = Some editor \<and> languageId (document editor) = ''markdown''")
  case True
  then obtain editor where e: "activeTextEditor = Some editor"
    and md: "languageId (document editor) = ''markdown''" by blast
  let ?w2 = "createPendingRequest (uri (document editor)) (selectionActive editor) w"
  have inv2: "coordinatorInv ?w2" by (rule coordinatorInv_createPendingRequest [OF assms])
  let ?w' = "snd (triggerCompletion_begin fs (Some editor) config w)"
  have tr: "trace ?w' = trace ?w2 @ [ExecuteCommand ''editor.action.inlineSuggest.trigger'']"
    by (simp add: trace_begin [OF md] trace_createPendingRequest)
  have pe: "pendingRequest ?w' = pendingRequest ?w2"
    by (simp add: pending_begin [OF md] pending_createPendingRequest)
  from inv2 have "coordinatorInv ?w'"
    unfolding coordinatorInv_def tr slotPromises_def pe by simp
  with e show ?thesis by simp
next
  case False
  then have "snd (triggerCompletion_begin fs activeTextEditor config w) =
      setStatus ''Open a markdown file'' (Some ''warning'') w"
    by (auto simp: triggerCompletion_begin_def split: option.splits)
  moreover have "coordinatorInv (setStatus ''Open a markdown file'' (Some ''warning'') w) =
      coordinatorInv w"
    by (rule coordinatorInv_cong) simp_all
  ultimately show ?thesis using assms by simp
qed

lemma getCompletion_trace:
  "trace (snd (getCompletion generateText promptText config w)) =
     trace w @ [GenerateText (completionRequest promptText config)]"
  by (simp add: getCompletion_def Let_def split: sum.splits)

lemma getCompletion_pending:
  "pendingRequest (snd (getCompletion generateText promptText config w)) = pendingRequest w"
  by (simp add: getCompletion_def Let_def split: sum.splits)

lemma getCompletion_value:
  "fst (getCompletion generateText promptText config w) =
     Inr (case generateText (completionRequest promptText config) of
            Inl err \<Rightarrow> None
          | Inr result \<Rightarrow>
              (case resultText result of
                 Some t \<Rightarrow> if t \<noteq> [] then Some t else None
               | None \<Rightarrow> None))"
  by (simp add: getCompletion_def Let_def split: sum.splits)

lemma coordinatorInv_getCompletion:
  assumes "coordinatorInv w"
  shows "coordinatorInv (snd (getCompletion generateText promptText config w))"
  using assms unfolding coordinatorInv_def getCompletion_trace slotPromises_def getCompletion_pending
  by simp


lemma resume_trace:
  "trace (triggerCompletion_resume pos (Inr completion) w) =
     trace (resolveRequest (completionItems pos completion) w)"
  by (simp add: triggerCompletion_resume_def completionItems_def split: option.splits)

lemma resume_pending:
  "pendingRequest (triggerCompletion_resume pos (Inr completion) w) = None"
  by (simp add: triggerCompletion_resume_def split: option.splits)

lemma coordinatorInv_resume:
  assumes "coordinatorInv w"
  shows "coordinatorInv (triggerCompletion_resume pos llm w)"
proof (cases llm)
  case (Inl err)
  with assms show ?thesis by (simp add: triggerCompletion_resume_def)
next
  case (Inr completion)
  have "coordinatorInv (resolveRequest (completionItems pos completion) w)"
    by (rule coordinatorInv_resolveRequest [OF assms])
  moreover have "coordinatorInv (triggerCompletion_resume pos (Inr completion) w) =
      coordinatorInv (resolveRequest (completionItems pos completion) w)"
    by (rule coordinatorInv_cong) (simp_all add: resume_trace resume_pending)
  ultimately show ?thesis unfolding Inr by simp
qed


lemma fst_begin:
  assumes "languageId (document editor) = ''markdown''"
  shows "\<exists>promptText. fst (triggerCompletion_begin fs (Some editor) config w) =
           Some (promptText, selectionActive editor)"
  by (simp add: begin_markdown [OF assms] Let_def)

lemma triggerCompletion_run:
  assumes "triggerCompletion_begin fs activeTextEditor config w = (Some (promptText, pos), w1)"
    and "fst (getCompletion generateText promptText config w1) = Inr completion"
  shows "triggerCompletion fs generateText activeTextEditor config w =
           triggerCompletion_resume pos (Inr completion)
             (snd (getCompletion generateText promptText config w1))"
  using assms by (auto simp: triggerCompletion_def split: prod.splits)

lemma trace_resume_pending:
  assumes "pendingRequest w = Some r"
  shows "trace (triggerCompletion_resume pos (Inr completion) w) =
           trace w @ [ResolveCall (promise r) (completionItems pos completion)]"
  by (simp add: resume_trace trace_resolveRequest assms)

text \<open>
  Claim C4. In the trigger handler on a markdown editor the effects happen in the order: the
  pending promise is created (after the promise of a superseded request, if any, was resolved
  empty), the host command \<^verbatim>\<open>editor.action.inlineSuggest.trigger\<close> is issued, the request is sent
  to the backend, and only with the backend's answer \<^verbatim>\<open>resolve\<close> is called on the promise. When
  the handler is suspended, having issued the host command and before any backend answer, the
  slot holds the request of the triggering document and the provider, called for that document
  at any position, returns its promise, which is still pending.
\<close>

theorem reinvoke_before_backend:
  "languageId (document editor) = ''markdown'' \<longrightarrow>
     (\<exists>promptText completion.
        fst (triggerCompletion_begin fs (Some editor) config w) =
          Some (promptText, selectionActive editor)
        \<and> trace (snd (triggerCompletion_begin fs (Some editor) config w)) =
            trace w @ (case pendingRequest w of None \<Rightarrow> [] | Some r \<Rightarrow> [ResolveCall (promise r) []])
              @ [NewPromise (length (created (trace w))),
                 ExecuteCommand ''editor.action.inlineSuggest.trigger'']
        \<and> pendingRequest (snd (triggerCompletion_begin fs (Some editor) config w)) =
            Some \<lparr>documentUri = uri (document editor), position = selectionActive editor,
                  promise = length (created (trace w))\<rparr>
        \<and> provideInlineCompletionItems (document editor) anyPos
              (snd (triggerCompletion_begin fs (Some editor) config w)) =
            (Some (length (created (trace w))),
             snd (triggerCompletion_begin fs (Some editor) config w))
        \<and> (coordinatorInv w \<longrightarrow>
              promiseState (length (created (trace w)))
                (trace (snd (triggerCompletion_begin fs (Some editor) config w))) = Pending)
        \<and> fst (getCompletion generateText promptText config
                  (snd (triggerCompletion_begin fs (Some editor) config w))) = Inr completion
        \<and> trace (triggerCompletion fs generateText (Some editor) config w) =
            trace (snd (triggerCompletion_begin fs (Some editor) config w))
              @ [GenerateText (completionRequest promptText config),
                 ResolveCall (length (created (trace w)))
                   (completionItems (selectionActive editor) completion)])"
proof
  assume md: "languageId (document editor) = ''markdown''"
  let ?b = "triggerCompletion_begin fs (Some editor) config w"
  let ?w1 = "snd ?b"
  let ?p = "length (created (trace w))"
  let ?pos = "selectionActive editor"
  from fst_begin [OF md] obtain promptText where f: "fst ?b = Some (promptText, ?pos)" by blast
  then have b: "?b = (Some (promptText, ?pos), ?w1)" by (metis prod.collapse)
  obtain completion where c: "fst (getCompletion generateText promptText config ?w1) = Inr completion"
    by (simp add: getCompletion_value)
  let ?w2 = "snd (getCompletion generateText promptText config ?w1)"
  note tr1 = trace_begin [OF md, of fs config w]
  note pe1 = pending_begin [OF md, of fs config w]
  have prov: "provideInlineCompletionItems (document editor) anyPos ?w1 = (Some ?p, ?w1)"
    by (simp add: provideInlineCompletionItems_def md getPendingPromise_def pe1)
  have pend: "promiseState ?p (trace ?w1) = Pending" if inv: "coordinatorInv w"
  proof -
    from coordinatorInv_begin [OF inv, of fs "Some editor" config]
    have "unsettled (trace ?w1) = [?p]"
      by (simp add: coordinatorInv_def slotPromises_def pe1)
    then have "resolveCalls ?p (trace ?w1) = []"
      using unsettled_no_calls [of ?p "trace ?w1"] by simp
    then show ?thesis by (simp add: promiseState_def)
  qed
  have pe2: "pendingRequest ?w2 =
      Some \<lparr>documentUri = uri (document editor), position = ?pos, promise = ?p\<rparr>"
    by (simp add: getCompletion_pending pe1)
  have "trace (triggerCompletion fs generateText (Some editor) config w) =
      trace ?w2 @ [ResolveCall ?p (completionItems ?pos completion)]"
    using trace_resume_pending [OF pe2, of ?pos completion]
    by (simp add: triggerCompletion_run [OF b c])
  then have full: "trace (triggerCompletion fs generateText (Some editor) config w) =
      trace ?w1 @ [GenerateText (completionRequest promptText config),
                   ResolveCall ?p (completionItems ?pos completion)]"
    by (simp add: getCompletion_trace)
  from f tr1 pe1 prov pend c full
  show "\<exists>promptText completion.
        fst ?b = Some (promptText, ?pos)
        \<and> trace ?w1 =
            trace w @ (case pendingRequest w of None \<Rightarrow> [] | Some r \<Rightarrow> [ResolveCall (promise r) []])
              @ [NewPromise ?p, ExecuteCommand ''editor.action.inlineSuggest.trigger'']
        \<and> pendingRequest ?w1 =
            Some \<lparr>documentUri = uri (document editor), position = ?pos, promise = ?p\<rparr>
        \<and> provideInlineCompletionItems (document editor) anyPos ?w1 = (Some ?p, ?w1)
        \<and> (coordinatorInv w \<longrightarrow> promiseState ?p (trace ?w1) = Pending)
        \<and> fst (getCompletion generateText promptText config ?w1) = Inr completion
        \<and> trace (triggerCompletion fs generateText (Some editor) config w) =
            trace ?w1 @ [GenerateText (completionRequest promptText config),
                 ResolveCall ?p (completionItems ?pos completion)]"
    by blast
qed

lemma example_begin:
  "triggerCompletion_begin noFiles (Some exampleEditor) exampleConfig initialWorld =
     (Some (''foo[X]bar'', \<lparr>line = 0, character = 3\<rparr>),
      \<lparr>settings = [''file:///a.md'' \<mapsto> defaultSettings],
       pendingRequest = Some \<lparr>documentUri = ''file:///a.md'',
         position = \<lparr>line = 0, character = 3\<rparr>, promise = 0\<rparr>,
       statusBarText = ''$(loading~spin) Fetching...'',
       trace = [NewPromise 0, ExecuteCommand ''editor.action.inlineSuggest.trigger'']\<rparr>)"
  by (simp add: triggerCompletion_begin_def exampleEditor_def exampleConfig_def noFiles_def
      initialWorld_def singleLineDocument_def setStatus_def createPendingRequest_def
      newPromise_def executeCommand_def configGet_def buildPrompt_def getSettings_def
      defaultSettings_def replaceTemplateVariables_def replaceGlobal_def Let_def)

theorem reinvoke_before_backend_witness:
  "languageId (document exampleEditor) = ''markdown''
   \<and> coordinatorInv initialWorld
   \<and> promiseState 0 (trace (snd (triggerCompletion_begin noFiles (Some exampleEditor)
        exampleConfig initialWorld))) = Pending
   \<and> trace (triggerCompletion noFiles answeringBackend (Some exampleEditor) exampleConfig
        initialWorld) =
       [NewPromise 0,
        ExecuteCommand ''editor.action.inlineSuggest.trigger'',
        GenerateText \<lparr>region = ''us-east-1'',
          modelId = ''us.anthropic.claude-3-5-haiku-20241022-v1:0'',
          prompt = ''foo[X]bar'', maxOutputTokens = 150\<rparr>,
        ResolveCall 0 [\<lparr>insertText = ''baz'',
          itemRange = Some \<lparr>rangeStart = \<lparr>line = 0, character = 3\<rparr>,
                            rangeEnd = \<lparr>line = 0, character = 3\<rparr>\<rparr>\<rparr>]]"
proof -
  have md: "languageId (document exampleEditor) = ''markdown''"
    by (simp add: exampleEditor_def singleLineDocument_def)
  let ?b = "triggerCompletion_begin noFiles (Some exampleEditor) exampleConfig initialWorld"
  from reinvoke_before_backend [of exampleEditor noFiles exampleConfig initialWorld _ answeringBackend] md
  obtain promptText completion where
    f: "fst ?b = Some (promptText, selectionActive exampleEditor)"
    and c: "fst (getCompletion answeringBackend promptText exampleConfig (snd ?b)) = Inr completion"
    and t: "trace (triggerCompletion noFiles answeringBackend (Some exampleEditor) exampleConfig
              initialWorld) =
            trace (snd ?b) @ [GenerateText (completionRequest promptText exampleConfig),
               ResolveCall (length (created (trace initialWorld)))
                 (completionItems (selectionActive exampleEditor) completion)]"
    and q: "coordinatorInv initialWorld \<longrightarrow>
              promiseState (length (created (trace initialWorld))) (trace (snd ?b)) = Pending"
    by blast
  from q coordinatorInv_initial have q': "promiseState 0 (trace (snd ?b)) = Pending"
    by (simp add: initialWorld_def)
  from f have p: "promptText = ''foo[X]bar''" by (simp add: example_begin)
  from c have "completion = Some ''baz''"
    by (simp add: getCompletion_value answeringBackend_def)
  moreover have "trace (snd ?b) = [NewPromise 0, ExecuteCommand ''editor.action.inlineSuggest.trigger'']"
    by (simp add: example_begin)
  moreover have "selectionActive exampleEditor = \<lparr>line = 0, character = 3\<rparr>"
    by (simp add: exampleEditor_def)
  moreover have "length (created (trace initialWorld)) = 0" by (simp add: initialWorld_def)
  moreover have "completionRequest ''foo[X]bar'' exampleConfig =
      \<lparr>region = ''us-east-1'', modelId = ''us.anthropic.claude-3-5-haiku-20241022-v1:0'',
       prompt = ''foo[X]bar'', maxOutputTokens = 150\<rparr>"
    by (simp add: completionRequest_def exampleConfig_def configGet_def)
  ultimately have "trace (triggerCompletion noFiles answeringBackend (Some exampleEditor) exampleConfig
        initialWorld) =
       [NewPromise 0,
        ExecuteCommand ''editor.action.inlineSuggest.trigger'',
        GenerateText \<lparr>region = ''us-east-1'',
          modelId = ''us.anthropic.claude-3-5-haiku-20241022-v1:0'',
          prompt = ''foo[X]bar'', maxOutputTokens = 150\<rparr>,
        ResolveCall 0 [\<lparr>insertText = ''baz'',
          itemRange = Some \<lparr>rangeStart = \<lparr>line = 0, character = 3\<rparr>,
                            rangeEnd = \<lparr>line = 0, character = 3\<rparr>\<rparr>\<rparr>]]"
    using t p by (simp add: completionItems_def)
  with md coordinatorInv_initial q' show ?thesis by blast
qed

text \<open>
  Claim C6. \<^verbatim>\<open>getCompletion\<close> never lets an exception out: its result is always a value, and
  when the backend throws or rejects that value is \<^verbatim>\<open>null\<close>. The resumed handler, given \<^verbatim>\<open>null\<close>,
  calls \<^verbatim>\<open>resolveRequest\<close> with the empty list, so the slot is empty afterwards and the promise
  that was in it has been resolved with no items. In a whole run of the handler on a markdown
  editor with a backend that fails, started in a state that satisfies the coordinator's
  invariant, no promise is left unsettled, the promise the handler created has had exactly
  one \<^verbatim>\<open>resolve\<close> call, with the empty list, and the status bar reads ``No completion''.
\<close>

theorem backend_fail_soft:
  "(\<exists>completion. fst (getCompletion generateText promptText config w) = Inr completion)
   \<and> (\<forall>err. generateText (completionRequest promptText config) = Inl err \<longrightarrow>
         fst (getCompletion generateText promptText config w) = Inr None)
   \<and> pendingRequest (triggerCompletion_resume pos (Inr None) w) = None
   \<and> trace (triggerCompletion_resume pos (Inr None) w) =
       trace w @ (case pendingRequest w of None \<Rightarrow> [] | Some r \<Rightarrow> [ResolveCall (promise r) []])
   \<and> (coordinatorInv w \<and> languageId (document editor) = ''markdown''
        \<and> (\<forall>req. \<exists>err. generateText req = Inl err) \<longrightarrow>
         pendingRequest (triggerCompletion fs generateText (Some editor) config w) = None
         \<and> unsettled (trace (triggerCompletion fs generateText (Some editor) config w)) = []
         \<and> resolveCalls (length (created (trace w)))
              (trace (triggerCompletion fs generateText (Some editor) config w)) = [[]]
         \<and> statusBarText (triggerCompletion fs generateText (Some editor) config w) =
              ''$(warning) No completion'')"
proof -
  have a: "\<exists>completion. fst (getCompletion generateText promptText config w) = Inr completion"
    by (simp add: getCompletion_value)
  have b: "\<forall>err. generateText (completionRequest promptText config) = Inl err \<longrightarrow>
         fst (getCompletion generateText promptText config w) = Inr None"
    by (simp add: getCompletion_value)
  have c: "pendingRequest (triggerCompletion_resume pos (Inr None) w) = None"
    by (rule resume_pending)
  have d: "trace (triggerCompletion_resume pos (Inr None) w) =
       trace w @ (case pendingRequest w of None \<Rightarrow> [] | Some r \<Rightarrow> [ResolveCall (promise r) []])"
    by (simp add: resume_trace trace_resolveRequest completionItems_def)
  have e: "pendingRequest (triggerCompletion fs generateText (Some editor) config w) = None
         \<and> unsettled (trace (triggerCompletion fs generateText (Some editor) config w)) = []
         \<and> resolveCalls (length (created (trace w)))
              (trace (triggerCompletion fs generateText (Some editor) config w)) = [[]]
         \<and> statusBarText (triggerCompletion fs generateText (Some editor) config w) =
              ''$(warning) No completion''"
    if inv: "coordinatorInv w" and md: "languageId (document editor) = ''markdown''"
      and fails: "\<forall>req. \<exists>err. generateText req = Inl err"
  proof -
    let ?b = "triggerCompletion_begin fs (Some editor) config w"
    let ?w1 = "snd ?b"
    let ?p = "length (created (trace w))"
    let ?pos = "selectionActive editor"
    from fst_begin [OF md] obtain promptText where "fst ?b = Some (promptText, ?pos)" by blast
    then have beg: "?b = (Some (promptText, ?pos), ?w1)" by (metis prod.collapse)
    from fails obtain err where "generateText (completionRequest promptText config) = Inl err"
      by blast
    then have val: "fst (getCompletion generateText promptText config ?w1) = Inr None"
      by (simp add: getCompletion_value)
    let ?w2 = "snd (getCompletion generateText promptText config ?w1)"
    let ?w3 = "triggerCompletion fs generateText (Some editor) config w"
    have run: "?w3 = triggerCompletion_resume ?pos (Inr None) ?w2"
      by (rule triggerCompletion_run [OF beg val])
    have inv3: "coordinatorInv ?w3"
      unfolding run
      by (intro coordinatorInv_resume coordinatorInv_getCompletion coordinatorInv_begin inv)
    have pe3: "pendingRequest ?w3 = None" unfolding run by (rule resume_pending)
    from inv3 pe3 have un3: "unsettled (trace ?w3) = []"
      by (simp add: coordinatorInv_def slotPromises_def)
    have pe2: "pendingRequest ?w2 =
        Some \<lparr>documentUri = uri (document editor), position = ?pos, promise = ?p\<rparr>"
      by (simp add: getCompletion_pending pending_begin [OF md])
    from coordinatorInv_slot(1) [OF coordinatorInv_getCompletion [OF coordinatorInv_begin [OF inv]] pe2]
    have "resolveCalls ?p (trace ?w2) = []" by simp
    then have calls: "resolveCalls ?p (trace ?w3) = [[]]"
      unfolding run by (simp add: trace_resume_pending [OF pe2] completionItems_def)
    have st: "statusBarText ?w3 = ''$(warning) No completion''"
      unfolding run by (simp add: triggerCompletion_resume_def setStatus_def)
    from pe3 un3 calls st show ?thesis by blast
  qed
  from a b c d e show ?thesis by blast
qed

theorem backend_fail_soft_witness:
  "coordinatorInv initialWorld
   \<and> languageId (document exampleEditor) = ''markdown''
   \<and> (\<forall>req. \<exists>err. failingBackend req = Inl err)
   \<and> failingBackend (completionRequest ''foo[X]bar'' exampleConfig) = Inl (Error ''ETIMEDOUT'')
   \<and> fst (getCompletion failingBackend ''foo[X]bar'' exampleConfig initialWorld) = Inr None
   \<and> unsettled (trace (triggerCompletion noFiles failingBackend (Some exampleEditor)
        exampleConfig initialWorld)) = []
   \<and> resolveCalls 0 (trace (triggerCompletion noFiles failingBackend (Some exampleEditor)
        exampleConfig initialWorld)) = [[]]"
proof -
  have md: "languageId (document exampleEditor) = ''markdown''"
    by (simp add: exampleEditor_def singleLineDocument_def)
  have fails: "\<forall>req. \<exists>err. failingBackend req = Inl err" by (simp add: failingBackend_def)
  have one: "failingBackend (completionRequest ''foo[X]bar'' exampleConfig) = Inl (Error ''ETIMEDOUT'')"
    by (simp add: failingBackend_def)
  note inst = backend_fail_soft [of failingBackend "''foo[X]bar''" exampleConfig initialWorld
      "\<lparr>line = 0, character = 3\<rparr>" exampleEditor noFiles]
  from inst one have r1: "fst (getCompletion failingBackend ''foo[X]bar'' exampleConfig initialWorld) = Inr None"
    by blast
  from inst coordinatorInv_initial md fails
  have r2: "unsettled (trace (triggerCompletion noFiles failingBackend (Some exampleEditor)
        exampleConfig initialWorld)) = []"
    and r3: "resolveCalls (length (created (trace initialWorld)))
        (trace (triggerCompletion noFiles failingBackend (Some exampleEditor)
        exampleConfig initialWorld)) = [[]]"
    by blast+
  from r3 have r3': "resolveCalls 0 (trace (triggerCompletion noFiles failingBackend (Some exampleEditor)
        exampleConfig initialWorld)) = [[]]"
    by (simp add: initialWorld_def)
  from coordinatorInv_initial md fails one r1 r2 r3' show ?thesis by blast
qed


subsection \<open>The prompt builder\<close>






subsection \<open>Runs of the extension\<close>



lemma answeredItems_append [simp]:
  "answeredItems (hs @ hs') = answeredItems hs @ answeredItems hs'"
  by (simp add: answeredItems_def)




















subsection \<open>Replacement and templates\<close>




lemma token_nonempty [simp]: "token k \<noteq> []"
  by (cases k) simp_all














lemma render_append [simp]: "renderTemplate (ps @ qs) = renderTemplate ps @ renderTemplate qs"
  by (simp add: renderTemplate_def)

lemma render_Nil [simp]: "renderTemplate [] = []"
  by (simp add: renderTemplate_def)

lemma render_Lits [simp]: "renderTemplate (map Lit s) = s"
  by (induction s) (simp_all add: renderTemplate_def)


lemma substParts_append [simp]:
  "substParts k v (ps @ qs) = substParts k v ps @ substParts k v qs"
  by (simp add: substParts_def)

lemma substParts_Nil [simp]: "substParts k v [] = []"
  by (simp add: substParts_def)

lemma substParts_Lits [simp]: "substParts k v (map Lit s) = map Lit s"
  by (induction s) (simp_all add: substParts_def)





lemma fill_append [simp]: "fillTemplate val (ps @ qs) = fillTemplate val ps @ fillTemplate val qs"
  by (simp add: fillTemplate_def)

lemma fill_Lits [simp]: "fillTemplate val (map Lit s) = s"
  by (induction s) (simp_all add: fillTemplate_def)













lemma replaceEach_Nil [simp]: "replaceEach [] s = s"
  by (simp add: replaceEach_def)

lemma replaceEach_Cons [simp]:
  "replaceEach ((k, v) # steps) s = replaceEach steps (replaceGlobal (token k) v s)"
  by (simp add: replaceEach_def)

lemma replaceEach_append [simp]:
  "replaceEach (steps @ steps') s = replaceEach steps' (replaceEach steps s)"
  by (simp add: replaceEach_def)
















end
